theory Spec2Isabelle
  imports Complex_Main "HOL-Library.AList"
begin

section \<open>The Mininet launcher for ndnd: a shallow embedding of \<open>scripts/mn-ndnd.py\<close>\<close>

text \<open>
  The script builds a fixed five-node, six-link Mininet topology, starts one \<open>ndnd\<close>
  daemon per node, waits for the daemons' control sockets, creates the neighbour links
  and optionally performs one scripted handover. Pure helpers of the script are HOL
  functions; the parts that act on the machine are functions on an explicit
  \<open>state\<close> record; what the machine answers (effective user id, search path, what
  other processes put on the file system, how a child process reacts to a signal) is
  read from an \<open>os_env\<close> record.
\<close>

subsection \<open>Python values, errors and string formatting\<close>

text \<open>
  The exceptions the script raises by name, and a generic one for a failing library
  call. \<open>CapacityExceeded\<close> is the error the specification names for the subnet
  allocator; no statement of the script raises it.
\<close>

datatype py_error =
    FileNotFoundError string
  | PermissionError string
  | ValueError string
  | CapacityExceeded
  | LibraryError

text \<open>
  Values stored in the keyword dictionary handed to \<open>net.addLink\<close>. A Python float
  is only stored, passed on and compared with zero by the script, never computed with;
  it is modelled as a real number.
\<close>

datatype pyval = PyFloat real | PyInt int | PyStr string | PyBool bool

type_synonym kwargs = "(string \<times> pyval) list"

text \<open>\<open>str(n)\<close> for an integer, as an f-string field renders it: decimal digits,
  a leading minus sign for a negative number.\<close>

definition digit_char :: "nat \<Rightarrow> char" where
  "digit_char d = ''0123456789'' ! d"

function show_nat :: "nat \<Rightarrow> string" where
  "show_nat n =
     (if n < 10 then [digit_char n] else show_nat (n div 10) @ [digit_char (n mod 10)])"
  by pat_completeness auto
termination
  by (relation "measure (\<lambda>n. n)") auto

declare show_nat.simps [simp del]

definition show_int :: "int \<Rightarrow> string" where
  "show_int i = (if i < 0 then CHR ''-'' # show_nat (nat (- i)) else show_nat (nat i))"

text \<open>Truthiness of an \<open>str | None\<close> value: \<open>None\<close> and the empty string are false.\<close>

fun truthy :: "string option \<Rightarrow> bool" where
  "truthy None = False"
| "truthy (Some s) = (s \<noteq> [])"

subsection \<open>\<open>_alloc_p2p_subnet\<close>\<close>

text \<open>
  \<^verbatim>\<open>third = index // 64; fourth = (index % 64) * 4\<close>. Python's \<open>//\<close> and \<open>%\<close> by a
  positive constant are floor division and the non-negative remainder, which is what
  \<open>div\<close> and \<open>mod\<close> on \<open>int\<close> are.
\<close>

definition alloc_third :: "int \<Rightarrow> int" where
  "alloc_third index = index div 64"

definition alloc_fourth :: "int \<Rightarrow> int" where
  "alloc_fourth index = (index mod 64) * 4"

definition alloc_p2p_subnet :: "int \<Rightarrow> string \<times> string \<times> string" where
  "alloc_p2p_subnet index =
     (let third = alloc_third index;
          fourth = alloc_fourth index;
          base = ''10.0.'' @ show_int third @ ''.'' @ show_int fourth;
          ip1 = ''10.0.'' @ show_int third @ ''.'' @ show_int (fourth + 1);
          ip2 = ''10.0.'' @ show_int third @ ''.'' @ show_int (fourth + 2);
          cidr = base @ ''/30''
      in (cidr, ip1, ip2))"


text \<open>
  The four addresses of the /30 block that \<open>_alloc_p2p_subnet index\<close> names
  (network address, the two hosts it returns, broadcast address), written as the
  function writes addresses.
\<close>

definition subnet_addresses :: "int \<Rightarrow> string list" where
  "subnet_addresses index =
     map (\<lambda>k. ''10.0.'' @ show_int (alloc_third index) @ ''.'' @ show_int (alloc_fourth index + k))
       [0, 1, 2, 3]"


subsection \<open>\<open>_tc_link_kwargs\<close>\<close>

text \<open>
  The dictionary is an association list in insertion order; \<open>kwargs[k] = v\<close> is
  \<open>AList.update\<close> (replace in place, or append a new key at the end).
  \<open>bw\<close>, \<open>loss\<close> and \<open>queue\<close> are tested with \<open>is not None\<close>, \<open>delay\<close> and
  \<open>jitter\<close> by truthiness.
\<close>

definition tc_link_kwargs ::
  "real option \<Rightarrow> string option \<Rightarrow> string option \<Rightarrow> real option \<Rightarrow> int option \<Rightarrow> kwargs" where
  "tc_link_kwargs bw delay jitter loss queue =
     (let kwargs = [];
          kwargs = (case bw of
                      None \<Rightarrow> kwargs
                    | Some v \<Rightarrow> AList.update ''use_htb'' (PyBool True)
                                 (AList.update ''bw'' (PyFloat v) kwargs));
          kwargs = (if truthy delay then AList.update ''delay'' (PyStr (the delay)) kwargs
                    else kwargs);
          kwargs = (if truthy jitter then AList.update ''jitter'' (PyStr (the jitter)) kwargs
                    else kwargs);
          kwargs = (case loss of
                      None \<Rightarrow> kwargs
                    | Some v \<Rightarrow> AList.update ''loss'' (PyFloat v) kwargs);
          kwargs = (case queue of
                      None \<Rightarrow> kwargs
                    | Some v \<Rightarrow> AList.update ''max_queue_size'' (PyInt v) kwargs)
      in kwargs)"

text \<open>
  The outcome of a call of \<open>_tc_link_kwargs\<close>: the body has no \<open>raise\<close> and compares
  no argument with a bound, so every call returns its dictionary.
\<close>

definition tc_link_kwargs_call ::
  "real option \<Rightarrow> string option \<Rightarrow> string option \<Rightarrow> real option \<Rightarrow> int option
     \<Rightarrow> py_error + kwargs" where
  "tc_link_kwargs_call bw delay jitter loss queue =
     Inr (tc_link_kwargs bw delay jitter loss queue)"

subsection \<open>Paths and the file system\<close>

text \<open>
  \<open>os.path.isabs\<close> and \<open>os.path.join\<close> as \<open>posixpath\<close> defines them. \<open>os.path.abspath\<close>
  depends on the working directory and is read from the environment.
\<close>

definition isabs :: "string \<Rightarrow> bool" where
  "isabs p = (p \<noteq> [] \<and> hd p = CHR ''/'')"

definition path_join2 :: "string \<Rightarrow> string \<Rightarrow> string" where
  "path_join2 path b =
     (if isabs b then b
      else if path = [] \<or> last path = CHR ''/'' then path @ b
      else path @ ''/'' @ b)"

definition path_join :: "string \<Rightarrow> string list \<Rightarrow> string" where
  "path_join a ps = foldl path_join2 a ps"

text \<open>
  What a path holds. The text of a generated file is a fixed template filled with a few
  values; the file is represented by those values.
\<close>

datatype fobj =
    Dir
  | Binary
  | WrapperScript string string
  | ConfFile string string int string
  | LogFile
  | Socket

text \<open>How a child process reacts to \<open>send_signal(SIGTERM)\<close> followed by
  \<open>wait(timeout=2)\<close>.\<close>

datatype term_outcome = ExitsInTime | SendSignalRaises | WaitTimesOut

text \<open>
  What the machine answers: the effective user id, \<open>shutil.which("ndnd")\<close>,
  \<open>os.path.abspath\<close>, the directory of the script, the paths that other processes
  (the daemons) have put on the file system at a given clock reading (milliseconds),
  how long one poll of the control sockets takes when it starts at a given clock
  reading, by how much a \<open>time.sleep\<close> that starts at a given clock reading overruns,
  and how child processes and \<open>net.stop()\<close> behave at shutdown (\<open>net_stop_raises n\<close>:
  whether the call raises when \<open>n\<close> calls of \<open>net.stop()\<close> went before).
\<close>

record os_env =
  geteuid :: nat
  which_ndnd :: "string option"
  abspath :: "string \<Rightarrow> string"
  script_dir :: string
  ext_paths :: "nat \<Rightarrow> string \<Rightarrow> bool"
  poll_time :: "nat \<Rightarrow> nat"
  oversleep :: "nat \<Rightarrow> nat"
  term_outcome_of :: "string \<Rightarrow> term_outcome"
  kill_raises :: "string \<Rightarrow> bool"
  net_stop_raises :: "nat \<Rightarrow> bool"

text \<open>The parsed command line (\<open>args\<close>); \<open>type=float\<close> options are reals.\<close>

record args =
  arg_ndnd :: "string option"
  arg_state_dir :: string
  arg_network :: string
  arg_udp_port :: int
  arg_cli :: bool
  arg_access_bw :: real
  arg_access_delay :: string
  arg_access_jitter :: string
  arg_access_loss :: real
  arg_isl_bw :: real
  arg_isl_delay :: string
  arg_isl_jitter :: string
  arg_isl_loss :: real
  arg_queue :: int
  arg_handover_after :: real

subsection \<open>The state of a run\<close>

text \<open>A link inside Mininet: its two nodes, the addresses of its two interfaces, its
  options and whether it is \<open>''up''\<close> or \<open>''down''\<close>. A link is up once created.\<close>

record mn_link =
  ml_node1 :: string
  ml_node2 :: string
  ml_ip1 :: string
  ml_ip2 :: string
  ml_opts :: kwargs
  ml_status :: string

text \<open>An entry of the script's own \<open>links\<close> list (a dictionary with these keys; the
  key \<open>link\<close> holds the position of the link inside Mininet).\<close>

record link_rec =
  l_a :: string
  l_b :: string
  l_a_ip :: string
  l_b_ip :: string
  l_cidr :: string
  l_kind :: string
  l_link :: nat

text \<open>What the run does to the outside, in order. Log messages are kept as tags.\<close>

datatype call =
    NodeCmd string string
  | Popen string string
  | SendSignalTerm string
  | WaitProc string nat
  | KillProc string
  | ConfigLinkStatus string string string
  | NetStart
  | NetStop
  | WarnNotReady "string list"
  | InfoHandover
  | InfoRunning

text \<open>The background thread that runs \<open>handover\<close>: never started, sleeping until the
  delay has passed, or finished (a thread runs its target once).\<close>

datatype thread_state = NoThread | Sleeping | Finished

text \<open>
  The state: the file system as the script made it, the clock, Mininet (hosts, links,
  calls of \<open>net.stop()\<close>), the variables \<open>subnet_idx\<close>, \<open>links\<close> and \<open>procs\<close> of \<open>main\<close>,
  the calls made so far, the handover thread, whether the process is still running, and
  how far \<open>cleanup\<close> has got: \<open>None\<close> while it has not begun, otherwise the entries of
  \<open>list(procs.items())\<close> that its loop has still to visit.
\<close>

record state =
  st_fs :: "string \<Rightarrow> fobj option"
  st_now :: nat
  st_hosts :: "string list"
  st_mn_links :: "mn_link list"
  st_net_stops :: nat
  st_subnet_idx :: int
  st_links :: "link_rec list"
  st_procs :: "(string \<times> string) list"
  st_trace :: "call list"
  st_thread :: thread_state
  st_alive :: bool
  st_cleaning :: "(string \<times> string) list option"

text \<open>
  A statement that may raise: it returns the exception, if any, and the state it
  leaves. \<open>seq\<close> is one statement after another, \<open>try_except f h\<close> is
  \<^verbatim>\<open>try: f except Exception: h\<close>, \<open>for_each\<close> a \<open>for\<close> loop over a list.
\<close>

type_synonym stmt = "state \<Rightarrow> py_error option \<times> state"

definition pass :: stmt where
  "pass s = (None, s)"

definition seq :: "stmt \<Rightarrow> stmt \<Rightarrow> stmt" where
  "seq f g s = (case f s of (None, s1) \<Rightarrow> g s1 | (Some e, s1) \<Rightarrow> (Some e, s1))"

definition try_except :: "stmt \<Rightarrow> stmt \<Rightarrow> stmt" where
  "try_except f h s = (case f s of (None, s1) \<Rightarrow> (None, s1) | (Some e, s1) \<Rightarrow> h s1)"

fun for_each :: "'a list \<Rightarrow> ('a \<Rightarrow> stmt) \<Rightarrow> stmt" where
  "for_each [] f = pass"
| "for_each (x # xs) f = seq (f x) (for_each xs f)"

definition do :: "(state \<Rightarrow> state) \<Rightarrow> stmt" where
  "do f s = (None, f s)"

definition trace :: "call \<Rightarrow> state \<Rightarrow> state" where
  "trace c s = s\<lparr>st_trace := st_trace s @ [c]\<rparr>"

definition path_exists :: "os_env \<Rightarrow> state \<Rightarrow> string \<Rightarrow> bool" where
  "path_exists env s p = (st_fs s p \<noteq> None \<or> ext_paths env (st_now s) p)"

text \<open>Time passes. \<open>time.sleep\<close> returns after the time asked for, or later.\<close>

definition advance :: "nat \<Rightarrow> state \<Rightarrow> state" where
  "advance ms s = s\<lparr>st_now := st_now s + ms\<rparr>"

definition time_sleep :: "os_env \<Rightarrow> nat \<Rightarrow> state \<Rightarrow> state" where
  "time_sleep env ms s = advance (ms + oversleep env (st_now s)) s"

definition dq :: string where
  "dq = [CHR 0x22]"

subsection \<open>\<open>_ensure_root\<close> and \<open>_find_ndnd\<close>\<close>

definition ensure_root :: "os_env \<Rightarrow> stmt" where
  "ensure_root env s =
     (if geteuid env \<noteq> 0 then (Some (PermissionError ''Mininet requires root.''), s)
      else (None, s))"

definition find_ndnd :: "os_env \<Rightarrow> state \<Rightarrow> string option \<Rightarrow> string \<Rightarrow> py_error + string" where
  "find_ndnd env s explicit repo_root =
     (if truthy explicit then
        (let p = the explicit;
             p = (if \<not> isabs p then abspath env p else p)
         in if \<not> path_exists env s p then Inl (FileNotFoundError (''--ndnd not found: '' @ p))
            else Inr p)
      else if truthy (which_ndnd env) then Inr (the (which_ndnd env))
      else (let p = path_join repo_root [''ndnd'', ''ndnd'']
            in if path_exists env s p then Inr p
               else Inl (FileNotFoundError ''Cannot find ndnd binary.'')))"

subsection \<open>Files the script writes\<close>

definition os_makedirs :: "string \<Rightarrow> state \<Rightarrow> state" where
  "os_makedirs d s = s\<lparr>st_fs := (st_fs s)(d \<mapsto> Dir)\<rparr>"

definition write_host_wrapper :: "string \<Rightarrow> string \<Rightarrow> string \<Rightarrow> state \<Rightarrow> state" where
  "write_host_wrapper wrapper_path ndnd_bin state_dir s =
     s\<lparr>st_fs := (st_fs s)(wrapper_path \<mapsto> WrapperScript ndnd_bin state_dir)\<rparr>"

definition write_combined_conf ::
  "string \<Rightarrow> string \<Rightarrow> string \<Rightarrow> string \<Rightarrow> int \<Rightarrow> state \<Rightarrow> state" where
  "write_combined_conf conf_path sock_path router network udp_port s =
     s\<lparr>st_fs := (st_fs s)(conf_path \<mapsto> ConfFile network router udp_port sock_path)\<rparr>"

text \<open>\<^verbatim>\<open>try: os.unlink(p) except FileNotFoundError: pass\<close>\<close>

definition os_unlink :: "string \<Rightarrow> state \<Rightarrow> state" where
  "os_unlink p s = s\<lparr>st_fs := (st_fs s)(p := None)\<rparr>"

subsection \<open>Mininet\<close>

definition node_names :: "string list" where
  "node_names = [''g1'', ''g2'', ''s1'', ''s2'', ''s3'']"

definition mininet_new :: "state \<Rightarrow> state" where
  "mininet_new s = s\<lparr>st_hosts := [], st_mn_links := []\<rparr>"

definition net_addHost :: "string \<Rightarrow> state \<Rightarrow> state" where
  "net_addHost name s = s\<lparr>st_hosts := st_hosts s @ [name]\<rparr>"

definition net_addLink :: "string \<Rightarrow> string \<Rightarrow> string \<Rightarrow> string \<Rightarrow> kwargs \<Rightarrow> state \<Rightarrow> state" where
  "net_addLink n1 n2 ip1 ip2 kw s =
     s\<lparr>st_mn_links := st_mn_links s @
        [\<lparr>ml_node1 = n1, ml_node2 = n2, ml_ip1 = ip1, ml_ip2 = ip2, ml_opts = kw,
          ml_status = ''up''\<rparr>]\<rparr>"

text \<open>\<open>net.configLinkStatus(src, dst, status)\<close> sets the status of every link between
  the two nodes, whichever way round it was created.\<close>

definition set_link_status :: "string \<Rightarrow> string \<Rightarrow> string \<Rightarrow> mn_link \<Rightarrow> mn_link" where
  "set_link_status src dst status l =
     (if (ml_node1 l = src \<and> ml_node2 l = dst) \<or> (ml_node1 l = dst \<and> ml_node2 l = src)
      then l\<lparr>ml_status := status\<rparr> else l)"

definition configLinkStatus :: "string \<Rightarrow> string \<Rightarrow> string \<Rightarrow> state \<Rightarrow> state" where
  "configLinkStatus src dst status s =
     trace (ConfigLinkStatus src dst status)
       (s\<lparr>st_mn_links := map (set_link_status src dst status) (st_mn_links s)\<rparr>)"

text \<open>The status of the link between two nodes, if there is one.\<close>

definition link_status :: "state \<Rightarrow> string \<Rightarrow> string \<Rightarrow> string option" where
  "link_status s x y =
     map_option ml_status
       (find (\<lambda>l. (ml_node1 l = x \<and> ml_node2 l = y) \<or> (ml_node1 l = y \<and> ml_node2 l = x))
          (st_mn_links s))"

subsection \<open>\<open>add_p2p\<close> and the topology\<close>

text \<open>The two calls of \<open>_tc_link_kwargs\<close> in \<open>add_p2p\<close>.\<close>

definition access_kwargs :: "args \<Rightarrow> kwargs" where
  "access_kwargs args =
     tc_link_kwargs (Some (arg_access_bw args)) (Some (arg_access_delay args))
       (Some (arg_access_jitter args)) (Some (arg_access_loss args)) (Some (arg_queue args))"

definition isl_kwargs :: "args \<Rightarrow> kwargs" where
  "isl_kwargs args =
     tc_link_kwargs (Some (arg_isl_bw args)) (Some (arg_isl_delay args))
       (Some (arg_isl_jitter args)) (Some (arg_isl_loss args)) (Some (arg_queue args))"

definition add_p2p :: "args \<Rightarrow> string \<Rightarrow> string \<Rightarrow> string \<Rightarrow> stmt" where
  "add_p2p args a b kind s =
     (let (cidr, a_ip, b_ip) = alloc_p2p_subnet (st_subnet_idx s);
          s = s\<lparr>st_subnet_idx := st_subnet_idx s + 1\<rparr>
      in if kind = ''access'' \<or> kind = ''isl'' then
           (let kw = (if kind = ''access'' then access_kwargs args else isl_kwargs args);
                link = length (st_mn_links s);
                s = net_addLink a b (a_ip @ ''/30'') (b_ip @ ''/30'') kw s
            in (None, s\<lparr>st_links := st_links s @
                  [\<lparr>l_a = a, l_b = b, l_a_ip = a_ip, l_b_ip = b_ip, l_cidr = cidr,
                    l_kind = kind, l_link = link\<rparr>]\<rparr>))
         else (Some (ValueError (''unknown link kind: '' @ kind)), s))"

text \<open>Lines 177 to 241 of the script: the hosts, the six links in their order, the start
  of the network, and the two alternate access links set down.\<close>

definition build_topology :: "args \<Rightarrow> stmt" where
  "build_topology args =
     seq (do mininet_new)
    (seq (do (\<lambda>s. foldl (\<lambda>s name. net_addHost name s) s node_names))
    (seq (do (\<lambda>s. s\<lparr>st_links := [], st_subnet_idx := 0\<rparr>))
    (seq (add_p2p args ''s1'' ''s2'' ''isl'')
    (seq (add_p2p args ''s2'' ''s3'' ''isl'')
    (seq (add_p2p args ''g1'' ''s1'' ''access'')
    (seq (add_p2p args ''g1'' ''s2'' ''access'')
    (seq (add_p2p args ''g2'' ''s2'' ''access'')
    (seq (add_p2p args ''g2'' ''s3'' ''access'')
    (seq (do (trace NetStart))
    (seq (do (configLinkStatus ''g1'' ''s2'' ''down''))
         (do (configLinkStatus ''g2'' ''s2'' ''down''))))))))))))"

subsection \<open>Starting the daemons\<close>

text \<open>\<open>node.popen(cmd, shell=True)\<close>: the shell opens the log file named by the
  redirection and runs the daemon; the handle kept in \<open>procs\<close> is the node's name.\<close>

definition node_popen :: "string \<Rightarrow> string \<Rightarrow> string \<Rightarrow> state \<Rightarrow> state" where
  "node_popen name cmd log_path s =
     trace (Popen name cmd) (s\<lparr>st_fs := (st_fs s)(log_path \<mapsto> LogFile)\<rparr>)"

definition start_daemon :: "args \<Rightarrow> string \<Rightarrow> string \<Rightarrow> string \<Rightarrow> state \<Rightarrow> state" where
  "start_daemon args ndnd_bin state_dir name s =
     (let sock_path = path_join state_dir [name @ ''.sock''];
          conf_path = path_join state_dir [name @ ''.yml''];
          log_path = path_join state_dir [name @ ''.log''];
          s = os_unlink sock_path s;
          s = write_combined_conf conf_path sock_path (arg_network args @ ''/'' @ name)
                (arg_network args) (arg_udp_port args) s;
          s = node_popen name
                (dq @ ndnd_bin @ dq @ '' daemon '' @ dq @ conf_path @ dq @ '' >'' @ dq @ log_path
                   @ dq @ '' 2>&1'')
                log_path s
      in s\<lparr>st_procs := AList.update name name (st_procs s)\<rparr>)"

definition start_daemons :: "args \<Rightarrow> string \<Rightarrow> string \<Rightarrow> state \<Rightarrow> state" where
  "start_daemons args ndnd_bin state_dir s =
     foldl (\<lambda>s name. start_daemon args ndnd_bin state_dir name s) s (st_hosts s)"

subsection \<open>Waiting for the control sockets\<close>

text \<open>
  \<^verbatim>\<open>deadline = time.time() + 8
  missing = []
  while time.time() < deadline:
      missing = [name for name in nodes.keys() if not os.path.exists(<name>.sock)]
      if not missing: break
      time.sleep(0.1)\<close>
  The clock is read in milliseconds. A poll looks at the file system as it is when the
  poll starts and takes \<open>poll_time\<close>; \<open>time.sleep(0.1)\<close> takes 100 ms and \<open>oversleep\<close>
  more. The loop tests the deadline only before a poll, so it leaves at the first clock
  reading at or past the deadline, or from a poll that found every socket.
\<close>

definition missing_socks :: "os_env \<Rightarrow> string \<Rightarrow> string list \<Rightarrow> state \<Rightarrow> string list" where
  "missing_socks env state_dir names s =
     filter (\<lambda>name. \<not> path_exists env s (path_join state_dir [name @ ''.sock''])) names"

function wait_loop ::
  "os_env \<Rightarrow> string \<Rightarrow> string list \<Rightarrow> nat \<Rightarrow> string list \<Rightarrow> state \<Rightarrow> string list \<times> state" where
  "wait_loop env state_dir names deadline missing s =
     (if st_now s < deadline then
        (let missing = missing_socks env state_dir names s;
             s = advance (poll_time env (st_now s)) s
         in if missing = [] then (missing, s)
            else wait_loop env state_dir names deadline missing (time_sleep env 100 s))
      else (missing, s))"
  by pat_completeness auto
termination
  by (relation "measure (\<lambda>(env, state_dir, names, deadline, missing, s). deadline - st_now s)")
     (auto simp: time_sleep_def advance_def)

declare wait_loop.simps [simp del]

definition wait_sockets :: "os_env \<Rightarrow> string \<Rightarrow> string list \<Rightarrow> state \<Rightarrow> string list \<times> state" where
  "wait_sockets env state_dir names s =
     (let deadline = st_now s + 8000
      in wait_loop env state_dir names deadline [] s)"

subsection \<open>Neighbour links\<close>

definition node_cmd :: "string \<Rightarrow> string \<Rightarrow> state \<Rightarrow> state" where
  "node_cmd name cmd s = trace (NodeCmd name cmd) s"

definition ndndctl :: "string \<Rightarrow> string \<Rightarrow> string" where
  "ndndctl wrapper_path hostname = dq @ wrapper_path @ dq"

definition link_create_cmd :: "string \<Rightarrow> string \<Rightarrow> string \<Rightarrow> int \<Rightarrow> string" where
  "link_create_cmd wrapper_path hostname peer_ip udp_port =
     ndndctl wrapper_path hostname @ '' dv link-create '' @ dq @ ''udp://'' @ peer_ip @ '':''
       @ show_int udp_port @ dq @ '' >/dev/null 2>&1 || true''"

text \<open>The loop of lines 297 to 306: every link but the two alternate access links.\<close>

fun link_initial :: "args \<Rightarrow> string \<Rightarrow> link_rec list \<Rightarrow> state \<Rightarrow> state" where
  "link_initial args wrapper_path [] s = s"
| "link_initial args wrapper_path (l # ls) s =
     (let a = l_a l; b = l_b l; a_ip = l_a_ip l; b_ip = l_b_ip l
      in if {a, b} = {''g1'', ''s2''} \<or> {a, b} = {''g2'', ''s2''}
         then link_initial args wrapper_path ls s
         else link_initial args wrapper_path ls
                (node_cmd b (link_create_cmd wrapper_path b a_ip (arg_udp_port args))
                  (node_cmd a (link_create_cmd wrapper_path a b_ip (arg_udp_port args)) s)))"

text \<open>The loop of lines 318 to 326: only the two alternate access links.\<close>

fun link_handover :: "args \<Rightarrow> string \<Rightarrow> link_rec list \<Rightarrow> state \<Rightarrow> state" where
  "link_handover args wrapper_path [] s = s"
| "link_handover args wrapper_path (l # ls) s =
     (let a = l_a l; b = l_b l
      in if \<not> ({a, b} = {''g1'', ''s2''} \<or> {a, b} = {''g2'', ''s2''})
         then link_handover args wrapper_path ls s
         else (let a_ip = l_a_ip l; b_ip = l_b_ip l
               in link_handover args wrapper_path ls
                    (node_cmd b (link_create_cmd wrapper_path b a_ip (arg_udp_port args))
                      (node_cmd a (link_create_cmd wrapper_path a b_ip (arg_udp_port args)) s))))"

subsection \<open>The handover\<close>

text \<open>The body of \<open>handover\<close> after its \<open>time.sleep\<close> has returned.\<close>

definition handover :: "args \<Rightarrow> string \<Rightarrow> state \<Rightarrow> state" where
  "handover args wrapper_path s =
     (let s = trace InfoHandover s;
          s = configLinkStatus ''g1'' ''s1'' ''down'' s;
          s = configLinkStatus ''g1'' ''s2'' ''up'' s;
          s = configLinkStatus ''g2'' ''s3'' ''down'' s;
          s = configLinkStatus ''g2'' ''s2'' ''up'' s
      in link_handover args wrapper_path (st_links s) s)"

subsection \<open>\<open>cleanup\<close>\<close>

definition proc_send_signal :: "os_env \<Rightarrow> string \<Rightarrow> stmt" where
  "proc_send_signal env p s =
     (if term_outcome_of env p = SendSignalRaises then (Some LibraryError, trace (SendSignalTerm p) s)
      else (None, trace (SendSignalTerm p) s))"

definition proc_wait :: "os_env \<Rightarrow> string \<Rightarrow> nat \<Rightarrow> stmt" where
  "proc_wait env p timeout s =
     (if term_outcome_of env p = WaitTimesOut
      then (Some LibraryError, advance timeout (trace (WaitProc p timeout) s))
      else (None, trace (WaitProc p timeout) s))"

definition proc_kill :: "os_env \<Rightarrow> string \<Rightarrow> stmt" where
  "proc_kill env p s =
     (if kill_raises env p then (Some LibraryError, trace (KillProc p) s)
      else (None, trace (KillProc p) s))"

definition net_stop :: "os_env \<Rightarrow> stmt" where
  "net_stop env s =
     (let s' = (trace NetStop s)\<lparr>st_net_stops := st_net_stops s + 1\<rparr>
      in if net_stop_raises env (st_net_stops s) then (Some LibraryError, s') else (None, s'))"

definition procs_pop :: "string \<Rightarrow> state \<Rightarrow> state" where
  "procs_pop name s = s\<lparr>st_procs := AList.delete name (st_procs s)\<rparr>"

text \<open>One round of the loop of \<open>cleanup\<close>, for the entry \<open>(name, proc)\<close> of \<open>procs\<close>.\<close>

definition stop_proc :: "os_env \<Rightarrow> string \<times> string \<Rightarrow> stmt" where
  "stop_proc env item =
     (case item of (name, proc) \<Rightarrow>
        seq (try_except (seq (proc_send_signal env proc) (proc_wait env proc 2000))
               (try_except (proc_kill env proc) pass))
            (do (procs_pop name)))"

definition cleanup :: "os_env \<Rightarrow> stmt" where
  "cleanup env s =
     seq (for_each (st_procs s) (stop_proc env))
         (try_except (net_stop env) pass) s"

subsection \<open>\<open>main\<close>\<close>

definition repo_root_of :: "os_env \<Rightarrow> string" where
  "repo_root_of env = abspath env (path_join (script_dir env) [''..''])"

definition state_dir_of :: "os_env \<Rightarrow> args \<Rightarrow> string" where
  "state_dir_of env args = abspath env (arg_state_dir args)"

definition wrapper_path_of :: "os_env \<Rightarrow> args \<Rightarrow> string" where
  "wrapper_path_of env args = path_join (state_dir_of env args) [''ndndctl'']"

text \<open>The \<open>try\<close> block of \<open>main\<close> up to the point where it blocks (lines 262 to 334).\<close>

definition main_try :: "os_env \<Rightarrow> args \<Rightarrow> string \<Rightarrow> state \<Rightarrow> state" where
  "main_try env args ndnd_bin s =
     (let state_dir = state_dir_of env args;
          wrapper_path = wrapper_path_of env args;
          s = start_daemons args ndnd_bin state_dir s;
          (missing, s) = wait_sockets env state_dir (st_hosts s) s;
          s = (if missing \<noteq> [] then trace (WarnNotReady missing) s else s);
          s = link_initial args wrapper_path (st_links s) s;
          s = (if arg_handover_after args > 0 then s\<lparr>st_thread := Sleeping\<rparr> else s)
      in trace InfoRunning s)"

text \<open>
  \<open>main\<close> from \<open>_ensure_root()\<close> to the point where it blocks in the Mininet CLI or in
  its endless sleep. Library calls that the script does not guard are taken to succeed.
\<close>

definition main_boot :: "os_env \<Rightarrow> args \<Rightarrow> stmt" where
  "main_boot env args s =
     (case ensure_root env s of
        (Some e, s) \<Rightarrow> (Some e, s)
      | (None, s) \<Rightarrow>
          (case find_ndnd env s (arg_ndnd args) (repo_root_of env) of
             Inl e \<Rightarrow> (Some e, s)
           | Inr ndnd_bin \<Rightarrow>
               (let state_dir = state_dir_of env args;
                    s = os_makedirs state_dir s;
                    wrapper_path = wrapper_path_of env args;
                    s = write_host_wrapper wrapper_path ndnd_bin state_dir s
                in case build_topology args s of
                     (Some e, s) \<Rightarrow> (Some e, s)
                   | (None, s) \<Rightarrow>
                       (let s = s\<lparr>st_procs := []\<rparr>;
                            s = main_try env args ndnd_bin s
                        in (None, s\<lparr>st_alive := True\<rparr>)))))"

text \<open>
  What happens once \<open>main\<close> blocks, as a sequence of events.
  \<^item> \<open>TimerExpired\<close>: the \<open>time.sleep\<close> of the handover thread returns and the thread
    runs the handover. The thread is a daemon thread: it lives as long as the process,
    so also while \<open>cleanup\<close> is under way.
  \<^item> \<open>Exit\<close>: the CLI returns or the sleep is interrupted, and \<open>cleanup\<close> begins in the
    \<open>finally\<close> clause with \<open>list(procs.items())\<close>.
  \<^item> \<open>CleanupStep\<close>: \<open>cleanup\<close> does its next piece of work: one round of its loop, or,
    when the loop is through, \<open>net.stop()\<close>, after which \<open>main\<close> returns and the
    process ends, and with it the handover thread.
  The handover can therefore happen before \<open>cleanup\<close>, between any two of its pieces,
  or not at all. A handover that happens while a piece is at work is placed before or
  after it: the pieces act on the processes and the clock, the handover on the links
  and the nodes, and only the order of the recorded calls depends on the placing.
  \<open>cleanup_steps\<close> below relates the pieces to \<open>cleanup\<close>.
\<close>

datatype event = TimerExpired | Exit | CleanupStep

fun step :: "os_env \<Rightarrow> args \<Rightarrow> event \<Rightarrow> state \<Rightarrow> state" where
  "step env args TimerExpired s =
     (if st_alive s \<and> st_thread s = Sleeping
      then (handover args (wrapper_path_of env args) s)\<lparr>st_thread := Finished\<rparr>
      else s)"
| "step env args Exit s =
     (if st_alive s \<and> st_cleaning s = None then s\<lparr>st_cleaning := Some (st_procs s)\<rparr> else s)"
| "step env args CleanupStep s =
     (if st_alive s then
        (case st_cleaning s of
           None \<Rightarrow> s
         | Some (item # items) \<Rightarrow> (snd (stop_proc env item s))\<lparr>st_cleaning := Some items\<rparr>
         | Some [] \<Rightarrow> (snd (try_except (net_stop env) pass s))\<lparr>st_alive := False\<rparr>)
      else s)"

definition run :: "os_env \<Rightarrow> args \<Rightarrow> event list \<Rightarrow> state \<Rightarrow> state" where
  "run env args es s = foldl (\<lambda>s e. step env args e s) s es"

text \<open>A whole run: the start, then the events in their order.\<close>

definition main :: "os_env \<Rightarrow> args \<Rightarrow> event list \<Rightarrow> stmt" where
  "main env args es s =
     (case main_boot env args s of
        (Some e, s) \<Rightarrow> (Some e, s)
      | (None, s) \<Rightarrow> (None, run env args es s))"

text \<open>How often the handover has run: it logs its message once each time.\<close>

definition handover_count :: "state \<Rightarrow> nat" where
  "handover_count s = length (filter (\<lambda>c. c = InfoHandover) (st_trace s))"

text \<open>The commands sent to the nodes' daemons so far.\<close>

fun node_cmds :: "call list \<Rightarrow> (string \<times> string) list" where
  "node_cmds [] = []"
| "node_cmds (NodeCmd h c # cs) = (h, c) # node_cmds cs"
| "node_cmds (_ # cs) = node_cmds cs"

subsection \<open>A fresh process and the default command line\<close>

text \<open>The state in which \<open>main\<close> starts: the file system and the clock as they are, no
  network, no child process, no thread, nothing done yet.\<close>

definition initial_state :: "(string \<Rightarrow> fobj option) \<Rightarrow> nat \<Rightarrow> state" where
  "initial_state fs t0 =
     \<lparr>st_fs = fs, st_now = t0, st_hosts = [], st_mn_links = [], st_net_stops = 0,
      st_subnet_idx = 0, st_links = [], st_procs = [], st_trace = [], st_thread = NoThread,
      st_alive = True, st_cleaning = None\<rparr>"

text \<open>The defaults of the argument parser.\<close>

definition default_args :: args where
  "default_args =
     \<lparr>arg_ndnd = None, arg_state_dir = ''/tmp/ndn-mn'', arg_network = ''/satnet'',
      arg_udp_port = 6363, arg_cli = False,
      arg_access_bw = 20, arg_access_delay = ''25ms'', arg_access_jitter = ''2ms'',
      arg_access_loss = 2 / 10,
      arg_isl_bw = 50, arg_isl_delay = ''8ms'', arg_isl_jitter = ''1ms'', arg_isl_loss = 5 / 100,
      arg_queue = 200, arg_handover_after = 0\<rparr>"

text \<open>
  A machine for the examples: the script runs as root from \<open>/repo/scripts\<close>, \<open>ndnd\<close> is
  on the search path, every daemon's control socket is there from 300 ms on, a poll
  takes 2 ms and a sleep overruns by 1 ms, and every child process exits on \<open>SIGTERM\<close>.
\<close>

definition example_env :: os_env where
  "example_env =
     \<lparr>geteuid = 0, which_ndnd = Some ''/usr/local/bin/ndnd'',
      abspath = (\<lambda>p. if isabs p then p else ''/repo/'' @ p),
      script_dir = ''/repo/scripts'',
      ext_paths = (\<lambda>t p. 300 \<le> t \<and> p \<in> set (map (\<lambda>n. ''/tmp/ndn-mn/'' @ n @ ''.sock'') node_names)),
      poll_time = (\<lambda>t. 2), oversleep = (\<lambda>t. 1),
      term_outcome_of = (\<lambda>p. ExitsInTime), kill_raises = (\<lambda>p. False),
      net_stop_raises = (\<lambda>n. False)\<rparr>"

text \<open>The same machine without an \<open>ndnd\<close> binary anywhere.\<close>

definition no_ndnd_env :: os_env where
  "no_ndnd_env = example_env\<lparr>which_ndnd := None\<rparr>"




subsection \<open>The fixed topology, written out\<close>

text \<open>
  The values that the script computes for its fixed topology; the lemmas
  \<open>build_topology_result\<close>, \<open>handover_built\<close>, \<open>link_initial_built\<close> and
  \<open>link_handover_built\<close> below prove that these are what the code produces.
\<close>

text \<open>The links inside Mininet after the topology is built.\<close>

definition built_mn_links :: "args \<Rightarrow> mn_link list" where
  "built_mn_links args =
   [\<lparr>ml_node1 = ''s1'', ml_node2 = ''s2'', ml_ip1 = ''10.0.0.1/30'', ml_ip2 = ''10.0.0.2/30'',
      ml_opts = isl_kwargs args, ml_status = ''up''\<rparr>,
    \<lparr>ml_node1 = ''s2'', ml_node2 = ''s3'', ml_ip1 = ''10.0.0.5/30'', ml_ip2 = ''10.0.0.6/30'',
      ml_opts = isl_kwargs args, ml_status = ''up''\<rparr>,
    \<lparr>ml_node1 = ''g1'', ml_node2 = ''s1'', ml_ip1 = ''10.0.0.9/30'', ml_ip2 = ''10.0.0.10/30'',
      ml_opts = access_kwargs args, ml_status = ''up''\<rparr>,
    \<lparr>ml_node1 = ''g1'', ml_node2 = ''s2'', ml_ip1 = ''10.0.0.13/30'', ml_ip2 = ''10.0.0.14/30'',
      ml_opts = access_kwargs args, ml_status = ''down''\<rparr>,
    \<lparr>ml_node1 = ''g2'', ml_node2 = ''s2'', ml_ip1 = ''10.0.0.17/30'', ml_ip2 = ''10.0.0.18/30'',
      ml_opts = access_kwargs args, ml_status = ''down''\<rparr>,
    \<lparr>ml_node1 = ''g2'', ml_node2 = ''s3'', ml_ip1 = ''10.0.0.21/30'', ml_ip2 = ''10.0.0.22/30'',
      ml_opts = access_kwargs args, ml_status = ''up''\<rparr>]"

text \<open>The list \<open>links\<close> of the script after the topology is built.\<close>

definition built_links :: "link_rec list" where
  "built_links =
   [\<lparr>l_a = ''s1'', l_b = ''s2'', l_a_ip = ''10.0.0.1'', l_b_ip = ''10.0.0.2'',
      l_cidr = ''10.0.0.0/30'', l_kind = ''isl'', l_link = 0\<rparr>,
    \<lparr>l_a = ''s2'', l_b = ''s3'', l_a_ip = ''10.0.0.5'', l_b_ip = ''10.0.0.6'',
      l_cidr = ''10.0.0.4/30'', l_kind = ''isl'', l_link = 1\<rparr>,
    \<lparr>l_a = ''g1'', l_b = ''s1'', l_a_ip = ''10.0.0.9'', l_b_ip = ''10.0.0.10'',
      l_cidr = ''10.0.0.8/30'', l_kind = ''access'', l_link = 2\<rparr>,
    \<lparr>l_a = ''g1'', l_b = ''s2'', l_a_ip = ''10.0.0.13'', l_b_ip = ''10.0.0.14'',
      l_cidr = ''10.0.0.12/30'', l_kind = ''access'', l_link = 3\<rparr>,
    \<lparr>l_a = ''g2'', l_b = ''s2'', l_a_ip = ''10.0.0.17'', l_b_ip = ''10.0.0.18'',
      l_cidr = ''10.0.0.16/30'', l_kind = ''access'', l_link = 4\<rparr>,
    \<lparr>l_a = ''g2'', l_b = ''s3'', l_a_ip = ''10.0.0.21'', l_b_ip = ''10.0.0.22'',
      l_cidr = ''10.0.0.20/30'', l_kind = ''access'', l_link = 5\<rparr>]"

text \<open>The links inside Mininet after the handover.\<close>

definition switched_mn_links :: "args \<Rightarrow> mn_link list" where
  "switched_mn_links args =
   [\<lparr>ml_node1 = ''s1'', ml_node2 = ''s2'', ml_ip1 = ''10.0.0.1/30'', ml_ip2 = ''10.0.0.2/30'',
      ml_opts = isl_kwargs args, ml_status = ''up''\<rparr>,
    \<lparr>ml_node1 = ''s2'', ml_node2 = ''s3'', ml_ip1 = ''10.0.0.5/30'', ml_ip2 = ''10.0.0.6/30'',
      ml_opts = isl_kwargs args, ml_status = ''up''\<rparr>,
    \<lparr>ml_node1 = ''g1'', ml_node2 = ''s1'', ml_ip1 = ''10.0.0.9/30'', ml_ip2 = ''10.0.0.10/30'',
      ml_opts = access_kwargs args, ml_status = ''down''\<rparr>,
    \<lparr>ml_node1 = ''g1'', ml_node2 = ''s2'', ml_ip1 = ''10.0.0.13/30'', ml_ip2 = ''10.0.0.14/30'',
      ml_opts = access_kwargs args, ml_status = ''up''\<rparr>,
    \<lparr>ml_node1 = ''g2'', ml_node2 = ''s2'', ml_ip1 = ''10.0.0.17/30'', ml_ip2 = ''10.0.0.18/30'',
      ml_opts = access_kwargs args, ml_status = ''up''\<rparr>,
    \<lparr>ml_node1 = ''g2'', ml_node2 = ''s3'', ml_ip1 = ''10.0.0.21/30'', ml_ip2 = ''10.0.0.22/30'',
      ml_opts = access_kwargs args, ml_status = ''down''\<rparr>]"

text \<open>The commands of the first linking pass, and of the pass inside the handover.\<close>

definition initial_cmds :: "string \<Rightarrow> int \<Rightarrow> (string \<times> string) list" where
  "initial_cmds w port =
    [(''s1'', link_create_cmd w ''s1'' ''10.0.0.2'' port),
     (''s2'', link_create_cmd w ''s2'' ''10.0.0.1'' port),
     (''s2'', link_create_cmd w ''s2'' ''10.0.0.6'' port),
     (''s3'', link_create_cmd w ''s3'' ''10.0.0.5'' port),
     (''g1'', link_create_cmd w ''g1'' ''10.0.0.10'' port),
     (''s1'', link_create_cmd w ''s1'' ''10.0.0.9'' port),
     (''g2'', link_create_cmd w ''g2'' ''10.0.0.22'' port),
     (''s3'', link_create_cmd w ''s3'' ''10.0.0.21'' port)]"

definition handover_cmds :: "string \<Rightarrow> int \<Rightarrow> (string \<times> string) list" where
  "handover_cmds w port =
    [(''g1'', link_create_cmd w ''g1'' ''10.0.0.14'' port),
     (''s2'', link_create_cmd w ''s2'' ''10.0.0.13'' port),
     (''g2'', link_create_cmd w ''g2'' ''10.0.0.18'' port),
     (''s2'', link_create_cmd w ''s2'' ''10.0.0.17'' port)]"

text \<open>A piece of the trace that holds \<open>popen\<close> calls only.\<close>

definition only_popen :: "call list \<Rightarrow> bool" where
  "only_popen tr = (\<forall>c \<in> set tr. \<exists>h x. c = Popen h x)"

text \<open>The relays a ground node has an access link to, and those among them whose
  link is up.\<close>

definition access_peers :: "state \<Rightarrow> string \<Rightarrow> string list" where
  "access_peers s g =
     map (\<lambda>l. if l_a l = g then l_b l else l_a l)
       (filter (\<lambda>l. l_kind l = ''access'' \<and> (l_a l = g \<or> l_b l = g)) (st_links s))"

definition up_peers :: "state \<Rightarrow> string \<Rightarrow> string list" where
  "up_peers s g = filter (\<lambda>p. link_status s g p = Some ''up'') (access_peers s g)"

text \<open>The links that are up, by their end points.\<close>

definition up_links :: "state \<Rightarrow> (string \<times> string) list" where
  "up_links s =
     map (\<lambda>l. (l_a l, l_b l))
       (filter (\<lambda>l. link_status s (l_a l) (l_b l) = Some ''up'') (st_links s))"

text \<open>The two commands sent for one link: each end is told the address of the other.\<close>

definition link_cmds :: "string \<Rightarrow> int \<Rightarrow> link_rec \<Rightarrow> (string \<times> string) list" where
  "link_cmds w port l =
     [(l_a l, CHR 0x22 # w @ CHR 0x22 # '' dv link-create '' @ CHR 0x22 # ''udp://'' @ l_b_ip l
                @ '':'' @ show_int port @ CHR 0x22 # '' >/dev/null 2>&1 || true''),
      (l_b l, CHR 0x22 # w @ CHR 0x22 # '' dv link-create '' @ CHR 0x22 # ''udp://'' @ l_a_ip l
                @ '':'' @ show_int port @ CHR 0x22 # '' >/dev/null 2>&1 || true'')]"

text \<open>What one round of the loop of \<open>cleanup\<close> does to the child process \<open>p\<close>, as
  \<open>stop_proc_result\<close> below proves: \<open>SIGTERM\<close> first, a wait of at most two seconds,
  and \<open>kill\<close> when sending the signal or the wait raised.\<close>

definition stop_calls :: "os_env \<Rightarrow> string \<Rightarrow> call list" where
  "stop_calls env p =
     (case term_outcome_of env p of
        ExitsInTime \<Rightarrow> [SendSignalTerm p, WaitProc p 2000]
      | SendSignalRaises \<Rightarrow> [SendSignalTerm p, KillProc p]
      | WaitTimesOut \<Rightarrow> [SendSignalTerm p, WaitProc p 2000, KillProc p])"

text \<open>
  Whether, in a list of events, the timer of the handover thread expires while the
  process is still running. \<open>n\<close> is the number of tracked processes; \<open>left\<close> is \<open>None\<close>
  while \<open>cleanup\<close> has not begun and otherwise the number of pieces of work that
  \<open>cleanup\<close> has still to do (its rounds and \<open>net.stop()\<close>), the last of which ends the
  process. After the start of \<open>main\<close> five processes are tracked.
\<close>

fun fires_before_end :: "nat \<Rightarrow> nat option \<Rightarrow> event list \<Rightarrow> bool" where
  "fires_before_end n left [] = False"
| "fires_before_end n left (TimerExpired # es) = True"
| "fires_before_end n None (Exit # es) = fires_before_end n (Some (Suc n)) es"
| "fires_before_end n (Some k) (Exit # es) = fires_before_end n (Some k) es"
| "fires_before_end n None (CleanupStep # es) = fires_before_end n None es"
| "fires_before_end n (Some k) (CleanupStep # es) =
     (if k \<le> 1 then False else fires_before_end n (Some (k - 1)) es)"

definition timer_fires :: "event list \<Rightarrow> bool" where
  "timer_fires es = fires_before_end 5 None es"


text \<open>The time that the waits of \<open>cleanup\<close> take: two seconds for every child that does
  not exit in time.\<close>

definition wait_total :: "os_env \<Rightarrow> (string \<times> string) list \<Rightarrow> nat" where
  "wait_total env items =
     sum_list (map (\<lambda>(name, p). if term_outcome_of env p = WaitTimesOut then 2000 else 0) items)"

section \<open>Properties\<close>

subsection \<open>Decimal rendering is injective\<close>

lemma show_nat_small: "n < 10 \<Longrightarrow> show_nat n = [digit_char n]"
  by (subst show_nat.simps) simp

lemma show_nat_large:
  "\<not> n < 10 \<Longrightarrow> show_nat n = show_nat (n div 10) @ [digit_char (n mod 10)]"
  by (subst show_nat.simps) simp

lemma digit_char_in: "d < 10 \<Longrightarrow> digit_char d \<in> set ''0123456789''"
  unfolding digit_char_def by (rule nth_mem) simp

lemma digit_char_inj: "d < 10 \<Longrightarrow> e < 10 \<Longrightarrow> digit_char d = digit_char e \<Longrightarrow> d = e"
proof -
  assume d: "d < 10" and e: "e < 10" and eq: "digit_char d = digit_char e"
  have "distinct ''0123456789''" by simp
  moreover have "d < length ''0123456789''" "e < length ''0123456789''" using d e by simp_all
  ultimately show "d = e" using eq unfolding digit_char_def
    by (simp only: nth_eq_iff_index_eq)
qed

lemma show_nat_digits: "set (show_nat n) \<subseteq> set ''0123456789''"
proof (induction n rule: show_nat.induct)
  case (1 n)
  show ?case
  proof (cases "n < 10")
    case True
    then show ?thesis using digit_char_in[of n] by (simp add: show_nat_small)
  next
    case False
    have "n mod 10 < 10" by simp
    with False 1 digit_char_in[of "n mod 10"] show ?thesis
      by (simp add: show_nat_large)
  qed
qed

lemma show_nat_nonempty: "show_nat n \<noteq> []"
  by (cases "n < 10") (simp_all add: show_nat_small show_nat_large)

lemma show_nat_inj: "show_nat n = show_nat m \<Longrightarrow> n = m"
proof (induction n arbitrary: m rule: show_nat.induct)
  case (1 n)
  show ?case
  proof (cases "n < 10")
    case n: True
    show ?thesis
    proof (cases "m < 10")
      case True
      with n 1(2) have "digit_char n = digit_char m" by (simp add: show_nat_small)
      with n True show ?thesis by (rule digit_char_inj)
    next
      case False
      then have "show_nat m = show_nat (m div 10) @ [digit_char (m mod 10)]"
        by (rule show_nat_large)
      moreover have "show_nat n = [digit_char n]" using n by (rule show_nat_small)
      ultimately show ?thesis using 1(2) show_nat_nonempty[of "m div 10"] by simp
    qed
  next
    case n: False
    then have sn: "show_nat n = show_nat (n div 10) @ [digit_char (n mod 10)]"
      by (rule show_nat_large)
    show ?thesis
    proof (cases "m < 10")
      case True
      then have "show_nat m = [digit_char m]" by (rule show_nat_small)
      with sn 1(2) show_nat_nonempty[of "n div 10"] show ?thesis by simp
    next
      case False
      then have "show_nat m = show_nat (m div 10) @ [digit_char (m mod 10)]"
        by (rule show_nat_large)
      with sn 1(2) have a: "show_nat (n div 10) = show_nat (m div 10)"
        and b: "digit_char (n mod 10) = digit_char (m mod 10)" by simp_all
      from 1(1)[OF n a] have "n div 10 = m div 10" .
      moreover from b have "n mod 10 = m mod 10" by (intro digit_char_inj) simp_all
      ultimately show ?thesis by (metis div_mult_mod_eq)
    qed
  qed
qed

lemma show_int_chars: "set (show_int i) \<subseteq> set ''-0123456789''"
proof (cases "i < 0")
  case True
  have "set (show_nat (nat (- i))) \<subseteq> set ''-0123456789''"
    using show_nat_digits[of "nat (- i)"] by (rule subset_trans) (simp add: subset_iff)
  with True show ?thesis by (simp add: show_int_def)
next
  case False
  have "set (show_nat (nat i)) \<subseteq> set ''-0123456789''"
    using show_nat_digits[of "nat i"] by (rule subset_trans) (simp add: subset_iff)
  with False show ?thesis by (simp add: show_int_def)
qed

lemma show_int_inj: "show_int i = show_int j \<Longrightarrow> i = j"
proof -
  assume eq: "show_int i = show_int j"
  have nd: "\<And>n. CHR ''-'' \<notin> set (show_nat n)" using show_nat_digits by fastforce
  have hd: "\<And>n. hd (show_nat n) \<noteq> CHR ''-''"
    using nd show_nat_nonempty by (metis hd_in_set)
  show "i = j"
  proof (cases "i < 0")
    case True
    show ?thesis
    proof (cases "j < 0")
      case j: True
      with True eq have "show_nat (nat (- i)) = show_nat (nat (- j))" by (simp add: show_int_def)
      then have "nat (- i) = nat (- j)" by (rule show_nat_inj)
      with True j show ?thesis by simp
    next
      case False
      with True eq have "CHR ''-'' # show_nat (nat (- i)) = show_nat (nat j)"
        by (simp add: show_int_def)
      with hd[of "nat j"] show ?thesis by (metis list.sel(1))
    qed
  next
    case False
    show ?thesis
    proof (cases "j < 0")
      case True
      with False eq have "show_nat (nat i) = CHR ''-'' # show_nat (nat (- j))"
        by (simp add: show_int_def)
      with hd[of "nat i"] show ?thesis by (metis list.sel(1))
    next
      case j: False
      with False eq have "show_nat (nat i) = show_nat (nat j)" by (simp add: show_int_def)
      then have "nat i = nat j" by (rule show_nat_inj)
      with False j show ?thesis by simp
    qed
  qed
qed

text \<open>A separator that occurs in neither prefix splits a string in one way only.\<close>

lemma sep_unique:
  "c \<notin> set xs \<Longrightarrow> c \<notin> set xs' \<Longrightarrow> xs @ c # ys = xs' @ c # ys' \<Longrightarrow> xs = xs' \<and> ys = ys'"
proof (induction xs arbitrary: xs')
  case Nil
  then show ?case by (cases xs') auto
next
  case (Cons a xs)
  then show ?case by (cases xs') auto
qed

lemma dotted_inj:
  assumes "''10.0.'' @ show_int a @ ''.'' @ show_int b = ''10.0.'' @ show_int a' @ ''.'' @ show_int b'"
  shows "a = a' \<and> b = b'"
proof -
  from assms have eq: "show_int a @ CHR ''.'' # show_int b = show_int a' @ CHR ''.'' # show_int b'"
    by simp
  have "CHR ''.'' \<notin> set (show_int a)" "CHR ''.'' \<notin> set (show_int a')"
    using show_int_chars by fastforce+
  with eq have "show_int a = show_int a' \<and> show_int b = show_int b'"
    by (rule sep_unique[rotated 2])
  then show ?thesis by (auto dest: show_int_inj)
qed

subsection \<open>What the phases of \<open>main\<close> compute\<close>

lemmas stmt_defs = seq_def do_def pass_def try_except_def

lemma alloc_values:
  "alloc_p2p_subnet 0 = (''10.0.0.0/30'', ''10.0.0.1'', ''10.0.0.2'')"
  "alloc_p2p_subnet 1 = (''10.0.0.4/30'', ''10.0.0.5'', ''10.0.0.6'')"
  "alloc_p2p_subnet 2 = (''10.0.0.8/30'', ''10.0.0.9'', ''10.0.0.10'')"
  "alloc_p2p_subnet 3 = (''10.0.0.12/30'', ''10.0.0.13'', ''10.0.0.14'')"
  "alloc_p2p_subnet 4 = (''10.0.0.16/30'', ''10.0.0.17'', ''10.0.0.18'')"
  "alloc_p2p_subnet 5 = (''10.0.0.20/30'', ''10.0.0.21'', ''10.0.0.22'')"
  by (simp_all add: alloc_p2p_subnet_def alloc_third_def alloc_fourth_def show_int_def
      show_nat_small show_nat_large digit_char_def)

lemma add_p2p_isl:
  "add_p2p args a b ''isl'' s =
    (None, s\<lparr>st_subnet_idx := st_subnet_idx s + 1,
       st_mn_links := st_mn_links s @
         [\<lparr>ml_node1 = a, ml_node2 = b,
           ml_ip1 = fst (snd (alloc_p2p_subnet (st_subnet_idx s))) @ ''/30'',
           ml_ip2 = snd (snd (alloc_p2p_subnet (st_subnet_idx s))) @ ''/30'',
           ml_opts = isl_kwargs args, ml_status = ''up''\<rparr>],
       st_links := st_links s @
         [\<lparr>l_a = a, l_b = b, l_a_ip = fst (snd (alloc_p2p_subnet (st_subnet_idx s))),
           l_b_ip = snd (snd (alloc_p2p_subnet (st_subnet_idx s))),
           l_cidr = fst (alloc_p2p_subnet (st_subnet_idx s)),
           l_kind = ''isl'', l_link = length (st_mn_links s)\<rparr>]\<rparr>)"
  by (simp add: add_p2p_def net_addLink_def Let_def split_beta)

lemma add_p2p_access:
  "add_p2p args a b ''access'' s =
    (None, s\<lparr>st_subnet_idx := st_subnet_idx s + 1,
       st_mn_links := st_mn_links s @
         [\<lparr>ml_node1 = a, ml_node2 = b,
           ml_ip1 = fst (snd (alloc_p2p_subnet (st_subnet_idx s))) @ ''/30'',
           ml_ip2 = snd (snd (alloc_p2p_subnet (st_subnet_idx s))) @ ''/30'',
           ml_opts = access_kwargs args, ml_status = ''up''\<rparr>],
       st_links := st_links s @
         [\<lparr>l_a = a, l_b = b, l_a_ip = fst (snd (alloc_p2p_subnet (st_subnet_idx s))),
           l_b_ip = snd (snd (alloc_p2p_subnet (st_subnet_idx s))),
           l_cidr = fst (alloc_p2p_subnet (st_subnet_idx s)),
           l_kind = ''access'', l_link = length (st_mn_links s)\<rparr>]\<rparr>)"
  by (simp add: add_p2p_def net_addLink_def Let_def split_beta)

lemma build_topology_result:
  "build_topology args s =
     (None, s\<lparr>st_hosts := node_names, st_mn_links := built_mn_links args,
              st_subnet_idx := 6, st_links := built_links,
              st_trace := st_trace s @ [NetStart, ConfigLinkStatus ''g1'' ''s2'' ''down'',
                                        ConfigLinkStatus ''g2'' ''s2'' ''down'']\<rparr>)"
  unfolding build_topology_def
  by (simp add: stmt_defs add_p2p_isl add_p2p_access alloc_values mininet_new_def
      net_addHost_def node_names_def configLinkStatus_def trace_def set_link_status_def
      built_mn_links_def built_links_def)

lemma start_daemon_result:
  "start_daemon args bin sd name s =
     s\<lparr>st_fs := (st_fs s)
          (path_join sd [name @ ''.sock''] := None,
           path_join sd [name @ ''.yml''] \<mapsto>
             ConfFile (arg_network args) (arg_network args @ ''/'' @ name) (arg_udp_port args)
               (path_join sd [name @ ''.sock'']),
           path_join sd [name @ ''.log''] \<mapsto> LogFile),
        st_trace := st_trace s @
          [Popen name (dq @ bin @ dq @ '' daemon '' @ dq @ path_join sd [name @ ''.yml''] @ dq
             @ '' >'' @ dq @ path_join sd [name @ ''.log''] @ dq @ '' 2>&1'')],
        st_procs := AList.update name name (st_procs s)\<rparr>"
  by (simp add: start_daemon_def Let_def os_unlink_def write_combined_conf_def node_popen_def
      trace_def)

lemma start_daemons_fold:
  "\<exists>fs tr. foldl (\<lambda>s name. start_daemon args bin sd name s) s names =
        s\<lparr>st_fs := fs, st_trace := st_trace s @ tr,
          st_procs := foldl (\<lambda>ps name. AList.update name name ps) (st_procs s) names\<rparr>
      \<and> only_popen tr"
proof (induction names arbitrary: s)
  case Nil
  have "s = s\<lparr>st_fs := st_fs s, st_trace := st_trace s @ [], st_procs := st_procs s\<rparr>" by simp
  moreover have "only_popen []" by (simp add: only_popen_def)
  ultimately show ?case by (metis foldl_Nil)
next
  case (Cons n names)
  let ?s1 = "start_daemon args bin sd n s"
  from Cons[of ?s1] obtain fs tr where
    eq: "foldl (\<lambda>s name. start_daemon args bin sd name s) ?s1 names =
        ?s1\<lparr>st_fs := fs, st_trace := st_trace ?s1 @ tr,
          st_procs := foldl (\<lambda>ps name. AList.update name name ps) (st_procs ?s1) names\<rparr>"
    and op: "only_popen tr" by blast
  obtain c where tr1: "st_trace ?s1 = st_trace s @ [Popen n c]"
    by (simp add: start_daemon_result)
  have p1: "st_procs ?s1 = AList.update n n (st_procs s)" by (simp add: start_daemon_result)
  have "foldl (\<lambda>s name. start_daemon args bin sd name s) s (n # names) =
        s\<lparr>st_fs := fs, st_trace := st_trace s @ (Popen n c # tr),
          st_procs := foldl (\<lambda>ps name. AList.update name name ps) (st_procs s) (n # names)\<rparr>"
    unfolding foldl_Cons eq tr1 p1 by (simp add: start_daemon_result)
  moreover have "only_popen (Popen n c # tr)" using op by (simp add: only_popen_def)
  ultimately show ?case by blast
qed

lemma wait_loop_done: "\<not> st_now s < d \<Longrightarrow> wait_loop env sd names d m s = (m, s)"
  by (subst wait_loop.simps) simp

lemma wait_loop_ready:
  "st_now s < d \<Longrightarrow> missing_socks env sd names s = [] \<Longrightarrow>
     wait_loop env sd names d m s = ([], advance (poll_time env (st_now s)) s)"
  by (subst wait_loop.simps) simp

lemma wait_loop_again:
  "st_now s < d \<Longrightarrow> missing_socks env sd names s \<noteq> [] \<Longrightarrow>
     wait_loop env sd names d m s =
       wait_loop env sd names d (missing_socks env sd names s)
         (time_sleep env 100 (advance (poll_time env (st_now s)) s))"
  by (subst wait_loop.simps) (simp add: Let_def)

text \<open>The state after a poll that did not find every socket and the sleep that follows.\<close>

lemma after_sleep:
  "time_sleep env 100 (advance (poll_time env (st_now s)) s) =
     s\<lparr>st_now := st_now s + poll_time env (st_now s) + 100
                   + oversleep env (st_now s + poll_time env (st_now s))\<rparr>"
  by (simp add: time_sleep_def advance_def)

lemma wait_loop_frame:
  "snd (wait_loop env sd names d m s) = s\<lparr>st_now := st_now (snd (wait_loop env sd names d m s))\<rparr>"
proof (induction env sd names d m s rule: wait_loop.induct)
  case (1 env sd names d m s)
  show ?case
  proof (cases "st_now s < d")
    case False
    then show ?thesis by (simp add: wait_loop_done)
  next
    case True
    show ?thesis
    proof (cases "missing_socks env sd names s = []")
      case e: True
      with True show ?thesis by (simp add: wait_loop_ready advance_def)
    next
      case ne: False
      from 1[OF True refl refl ne] show ?thesis
        unfolding wait_loop_again[OF True ne] after_sleep by simp
    qed
  qed
qed

lemma link_initial_built:
  "link_initial args w built_links s =
     s\<lparr>st_trace := st_trace s @ map (\<lambda>(h, c). NodeCmd h c) (initial_cmds w (arg_udp_port args))\<rparr>"
  by (simp add: built_links_def initial_cmds_def node_cmd_def trace_def doubleton_eq_iff Let_def)

lemma link_handover_built:
  "link_handover args w built_links s =
     s\<lparr>st_trace := st_trace s @ map (\<lambda>(h, c). NodeCmd h c) (handover_cmds w (arg_udp_port args))\<rparr>"
  by (simp add: built_links_def handover_cmds_def node_cmd_def trace_def doubleton_eq_iff Let_def)

lemma node_cmds_append: "node_cmds (xs @ ys) = node_cmds xs @ node_cmds ys"
  by (induction xs rule: node_cmds.induct) simp_all

lemma node_cmds_map: "node_cmds (map (\<lambda>(h, c). NodeCmd h c) cs) = cs"
  by (induction cs) auto

lemma node_cmds_only_popen: "only_popen tr \<Longrightarrow> node_cmds tr = []"
  by (induction tr rule: node_cmds.induct) (auto simp: only_popen_def)

lemma no_handover_only_popen: "only_popen tr \<Longrightarrow> filter (\<lambda>c. c = InfoHandover) tr = []"
  by (induction tr) (auto simp: only_popen_def)

lemma no_handover_map: "filter (\<lambda>c. c = InfoHandover) (map (\<lambda>(h, c). NodeCmd h c) cs) = []"
  by (induction cs) auto

lemma wait_sockets_frame:
  "\<exists>m t. wait_sockets env sd names s = (m, s\<lparr>st_now := t\<rparr>)"
proof -
  obtain m s' where r: "wait_sockets env sd names s = (m, s')" by (cases "wait_sockets env sd names s")
  have "snd (wait_sockets env sd names s) = s\<lparr>st_now := st_now (snd (wait_sockets env sd names s))\<rparr>"
    unfolding wait_sockets_def Let_def by (rule wait_loop_frame)
  with r have "s\<lparr>st_now := st_now s'\<rparr> = s'" by simp
  with r have "wait_sockets env sd names s = (m, s\<lparr>st_now := st_now s'\<rparr>)" by simp
  then show ?thesis by blast
qed

lemma main_try_built:
  assumes h: "st_hosts s = node_names" and l: "st_links s = built_links"
  shows "\<exists>fs t tr. main_try env args bin s =
           s\<lparr>st_fs := fs, st_now := t,
             st_procs := foldl (\<lambda>ps name. AList.update name name ps) (st_procs s) (st_hosts s),
             st_trace := st_trace s @ tr,
             st_thread := (if 0 < arg_handover_after args then Sleeping else st_thread s)\<rparr>
         \<and> node_cmds tr = initial_cmds (wrapper_path_of env args) (arg_udp_port args)
         \<and> filter (\<lambda>c. c = InfoHandover) tr = []"
proof -
  let ?sd = "state_dir_of env args"
  let ?w = "wrapper_path_of env args"
  let ?s1 = "start_daemons args bin ?sd s"
  let ?ps = "foldl (\<lambda>ps name. AList.update name name ps) (st_procs s) (st_hosts s)"
  from start_daemons_fold[of args bin ?sd s "st_hosts s"] obtain fs tr1 where
    s1: "?s1 = s\<lparr>st_fs := fs, st_trace := st_trace s @ tr1, st_procs := ?ps\<rparr>"
    and op: "only_popen tr1"
    unfolding start_daemons_def by blast
  from wait_sockets_frame[of env ?sd "st_hosts ?s1" ?s1] obtain m t where
    r: "wait_sockets env ?sd (st_hosts ?s1) ?s1 = (m, ?s1\<lparr>st_now := t\<rparr>)" by blast
  let ?warn = "if m \<noteq> [] then [WarnNotReady m] else []"
  let ?tr = "tr1 @ ?warn @ map (\<lambda>(h, c). NodeCmd h c) (initial_cmds ?w (arg_udp_port args)) @ [InfoRunning]"
  have links1: "st_links ?s1 = built_links" by (subst s1) (simp add: l)
  have "main_try env args bin s =
          trace InfoRunning
            ((\<lambda>s. if 0 < arg_handover_after args then s\<lparr>st_thread := Sleeping\<rparr> else s)
              (link_initial args ?w built_links
                ((\<lambda>s. if m \<noteq> [] then trace (WarnNotReady m) s else s) (?s1\<lparr>st_now := t\<rparr>))))"
    unfolding main_try_def Let_def r split_conv using links1 by (simp add: trace_def)
  also have "\<dots> =
           s\<lparr>st_fs := fs, st_now := t, st_procs := ?ps, st_trace := st_trace s @ ?tr,
             st_thread := (if 0 < arg_handover_after args then Sleeping else st_thread s)\<rparr>"
    unfolding link_initial_built by (subst s1)+ (simp add: trace_def)
  finally have "main_try env args bin s =
           s\<lparr>st_fs := fs, st_now := t, st_procs := ?ps, st_trace := st_trace s @ ?tr,
             st_thread := (if 0 < arg_handover_after args then Sleeping else st_thread s)\<rparr>" .
  moreover have "node_cmds ?tr = initial_cmds ?w (arg_udp_port args)"
    using op by (simp add: node_cmds_append node_cmds_map node_cmds_only_popen)
  moreover have "filter (\<lambda>c. c = InfoHandover) ?tr = []"
    using op by (simp add: no_handover_only_popen no_handover_map)
  ultimately show ?thesis by blast
qed

lemma main_boot_ok:
  assumes root: "geteuid env = 0"
    and found: "find_ndnd env s (arg_ndnd args) (repo_root_of env) = Inr bin"
  shows "\<exists>fs t tr. main_boot env args s =
           (None, s\<lparr>st_fs := fs, st_now := t, st_hosts := node_names,
                    st_mn_links := built_mn_links args, st_subnet_idx := 6,
                    st_links := built_links, st_procs := map (\<lambda>n. (n, n)) node_names,
                    st_trace := st_trace s @ tr,
                    st_thread := (if 0 < arg_handover_after args then Sleeping else st_thread s),
                    st_alive := True\<rparr>)
         \<and> node_cmds tr = initial_cmds (wrapper_path_of env args) (arg_udp_port args)
         \<and> filter (\<lambda>c. c = InfoHandover) tr = []"
proof -
  let ?s0 = "write_host_wrapper (wrapper_path_of env args) bin (state_dir_of env args)
               (os_makedirs (state_dir_of env args) s)"
  let ?tr0 = "[NetStart, ConfigLinkStatus ''g1'' ''s2'' ''down'', ConfigLinkStatus ''g2'' ''s2'' ''down'']"
  let ?s1 = "?s0\<lparr>st_hosts := node_names, st_mn_links := built_mn_links args,
              st_subnet_idx := 6, st_links := built_links,
              st_trace := st_trace ?s0 @ ?tr0, st_procs := []\<rparr>"
  have boot: "main_boot env args s = (None, (main_try env args bin ?s1)\<lparr>st_alive := True\<rparr>)"
    unfolding main_boot_def by (simp add: ensure_root_def root found Let_def build_topology_result)
  have "st_hosts ?s1 = node_names" "st_links ?s1 = built_links" by simp_all
  from main_try_built[OF this, of env args bin] obtain fs t tr where
    mt: "main_try env args bin ?s1 =
           ?s1\<lparr>st_fs := fs, st_now := t,
             st_procs := foldl (\<lambda>ps name. AList.update name name ps) (st_procs ?s1) (st_hosts ?s1),
             st_trace := st_trace ?s1 @ tr,
             st_thread := (if 0 < arg_handover_after args then Sleeping else st_thread ?s1)\<rparr>"
    and nc: "node_cmds tr = initial_cmds (wrapper_path_of env args) (arg_udp_port args)"
    and nh: "filter (\<lambda>c. c = InfoHandover) tr = []" by blast
  have "main_boot env args s =
           (None, s\<lparr>st_fs := fs, st_now := t, st_hosts := node_names,
                    st_mn_links := built_mn_links args, st_subnet_idx := 6,
                    st_links := built_links, st_procs := map (\<lambda>n. (n, n)) node_names,
                    st_trace := st_trace s @ (?tr0 @ tr),
                    st_thread := (if 0 < arg_handover_after args then Sleeping else st_thread s),
                    st_alive := True\<rparr>)"
    unfolding boot mt by (simp add: write_host_wrapper_def os_makedirs_def node_names_def)
  moreover have "node_cmds (?tr0 @ tr) = initial_cmds (wrapper_path_of env args) (arg_udp_port args)"
    using nc by simp
  moreover have "filter (\<lambda>c. c = InfoHandover) (?tr0 @ tr) = []" using nh by simp
  ultimately show ?thesis by blast
qed

lemma handover_built:
  assumes "st_mn_links s = built_mn_links args" and "st_links s = built_links"
  shows "handover args w s =
     s\<lparr>st_mn_links := switched_mn_links args,
       st_trace := st_trace s @
         [InfoHandover, ConfigLinkStatus ''g1'' ''s1'' ''down'', ConfigLinkStatus ''g1'' ''s2'' ''up'',
          ConfigLinkStatus ''g2'' ''s3'' ''down'', ConfigLinkStatus ''g2'' ''s2'' ''up'']
         @ map (\<lambda>(h, c). NodeCmd h c) (handover_cmds w (arg_udp_port args))\<rparr>"
  unfolding handover_def Let_def
  by (simp add: configLinkStatus_def trace_def assms link_handover_built)
     (simp add: built_mn_links_def switched_mn_links_def set_link_status_def)

subsection \<open>The subnet allocator\<close>


lemma alloc_fourth_div: "(alloc_fourth index + k) div 4 = index mod 64" if "0 \<le> k" "k < 4"
  using that unfolding alloc_fourth_def by simp

lemma alloc_index_eq: "index = 64 * alloc_third index + alloc_fourth index div 4"
  unfolding alloc_third_def alloc_fourth_def by simp

lemma subnet_addresses_mem:
  "x \<in> set (subnet_addresses index) \<Longrightarrow>
     \<exists>k. 0 \<le> k \<and> k < 4 \<and>
       x = ''10.0.'' @ show_int (alloc_third index) @ ''.'' @ show_int (alloc_fourth index + k)"
proof -
  assume "x \<in> set (subnet_addresses index)"
  then obtain k :: int where k: "k \<in> set [0, 1, 2, 3]"
    and x: "x = ''10.0.'' @ show_int (alloc_third index) @ ''.'' @ show_int (alloc_fourth index + k)"
    unfolding subnet_addresses_def set_map by blast
  from k have "0 \<le> k \<and> k < 4" by auto
  with x show ?thesis by blast
qed

lemma subnet_addresses_disjoint:
  assumes "i \<noteq> j"
  shows "set (subnet_addresses i) \<inter> set (subnet_addresses j) = {}"
proof (rule ccontr)
  assume "set (subnet_addresses i) \<inter> set (subnet_addresses j) \<noteq> {}"
  then obtain x where xi: "x \<in> set (subnet_addresses i)" and xj: "x \<in> set (subnet_addresses j)"
    by auto
  from subnet_addresses_mem[OF xi] obtain k where
    k: "0 \<le> k" "k < 4"
    and x1: "x = ''10.0.'' @ show_int (alloc_third i) @ ''.'' @ show_int (alloc_fourth i + k)"
    by blast
  from subnet_addresses_mem[OF xj] obtain l where
    l: "0 \<le> l" "l < 4"
    and x2: "x = ''10.0.'' @ show_int (alloc_third j) @ ''.'' @ show_int (alloc_fourth j + l)"
    by blast
  from x1 x2 have t: "alloc_third i = alloc_third j"
    and f: "alloc_fourth i + k = alloc_fourth j + l"
    using dotted_inj[of "alloc_third i" "alloc_fourth i + k" "alloc_third j" "alloc_fourth j + l"]
    by simp_all
  have "i mod 64 = (alloc_fourth i + k) div 4" using alloc_fourth_div[OF k] by simp
  also have "\<dots> = (alloc_fourth j + l) div 4" using f by simp
  also have "\<dots> = j mod 64" using alloc_fourth_div[OF l] by simp
  finally have m: "i mod 64 = j mod 64" .
  from t have d: "i div 64 = j div 64" unfolding alloc_third_def .
  have "i = 64 * (i div 64) + i mod 64" by simp
  also have "\<dots> = 64 * (j div 64) + j mod 64" using m d by simp
  also have "\<dots> = j" by simp
  finally show False using assms by simp
qed

lemma alloc_p2p_subnet_in_block:
  "alloc_p2p_subnet index =
     (subnet_addresses index ! 0 @ ''/30'', subnet_addresses index ! 1, subnet_addresses index ! 2)"
  unfolding alloc_p2p_subnet_def subnet_addresses_def by (simp add: Let_def)

lemma alloc_cidr_inj:
  assumes "fst (alloc_p2p_subnet i) = fst (alloc_p2p_subnet j)"
  shows "i = j"
proof -
  from assms have
    "''10.0.'' @ show_int (alloc_third i) @ ''.'' @ show_int (alloc_fourth i)
       = ''10.0.'' @ show_int (alloc_third j) @ ''.'' @ show_int (alloc_fourth j)"
    unfolding alloc_p2p_subnet_def by (simp add: Let_def)
  then have "alloc_third i = alloc_third j \<and> alloc_fourth i = alloc_fourth j"
    by (rule dotted_inj)
  then show ?thesis using alloc_index_eq[of i] alloc_index_eq[of j] by simp
qed

text \<open>
  Claim C2. For distinct non-negative link-creation indices \<open>i\<close> and \<open>j\<close> the /30 blocks
  returned by \<open>_alloc_p2p_subnet\<close> are disjoint: no address lies in both blocks, the two
  CIDR strings differ, and so do the returned triples. (The returned CIDR and hosts are
  the first three addresses of the block, by \<open>alloc_p2p_subnet_in_block\<close>.)
\<close>

theorem alloc_p2p_subnet_disjoint:
  assumes "0 \<le> i" and "0 \<le> j" and "i \<noteq> j"
  shows "set (subnet_addresses i) \<inter> set (subnet_addresses j) = {}
       \<and> fst (alloc_p2p_subnet i) \<noteq> fst (alloc_p2p_subnet j)
       \<and> alloc_p2p_subnet i \<noteq> alloc_p2p_subnet j
       \<and> fst (snd (alloc_p2p_subnet i)) \<in> set (subnet_addresses i)
       \<and> snd (snd (alloc_p2p_subnet i)) \<in> set (subnet_addresses i)"
proof -
  have a: "set (subnet_addresses i) \<inter> set (subnet_addresses j) = {}"
    using assms(3) by (rule subnet_addresses_disjoint)
  have b: "fst (alloc_p2p_subnet i) \<noteq> fst (alloc_p2p_subnet j)"
    using assms(3) alloc_cidr_inj by blast
  then have c: "alloc_p2p_subnet i \<noteq> alloc_p2p_subnet j" by auto
  have d: "fst (snd (alloc_p2p_subnet i)) \<in> set (subnet_addresses i)"
    "snd (snd (alloc_p2p_subnet i)) \<in> set (subnet_addresses i)"
    unfolding alloc_p2p_subnet_def subnet_addresses_def by (simp_all add: Let_def)
  from a b c d show ?thesis by simp
qed

theorem alloc_p2p_subnet_disjoint_witness:
  "(0::int) \<le> 2 \<and> (0::int) \<le> 3 \<and> (2::int) \<noteq> 3
   \<and> set (subnet_addresses 2) \<inter> set (subnet_addresses 3) = {}
   \<and> fst (alloc_p2p_subnet 2) = ''10.0.0.8/30''
   \<and> fst (alloc_p2p_subnet 3) = ''10.0.0.12/30''
   \<and> alloc_p2p_subnet 2 \<noteq> alloc_p2p_subnet 3"
proof -
  have h: "(0::int) \<le> 2" "(0::int) \<le> 3" "(2::int) \<noteq> 3" by simp_all
  have e: "fst (alloc_p2p_subnet 2) = ''10.0.0.8/30''" "fst (alloc_p2p_subnet 3) = ''10.0.0.12/30''"
    by (simp_all add: alloc_p2p_subnet_def alloc_third_def alloc_fourth_def show_int_def
        show_nat_small show_nat_large digit_char_def)
  from alloc_p2p_subnet_disjoint[OF h] e show ?thesis by simp
qed




subsection \<open>The link options\<close>

lemma tc_link_kwargs_lookup:
  "map_of (tc_link_kwargs bw delay jitter loss queue) k =
     (if k = ''max_queue_size'' \<and> queue \<noteq> None then Some (PyInt (the queue))
      else if k = ''loss'' \<and> loss \<noteq> None then Some (PyFloat (the loss))
      else if k = ''jitter'' \<and> truthy jitter then Some (PyStr (the jitter))
      else if k = ''delay'' \<and> truthy delay then Some (PyStr (the delay))
      else if k = ''use_htb'' \<and> bw \<noteq> None then Some (PyBool True)
      else if k = ''bw'' \<and> bw \<noteq> None then Some (PyFloat (the bw))
      else None)"
  unfolding tc_link_kwargs_def Let_def
  by (cases bw; cases loss; cases queue) (simp_all add: update_conv')

text \<open>
  Claim C10. \<open>_tc_link_kwargs\<close> treats its inputs asymmetrically: \<open>bw\<close> and \<open>loss\<close>
  (and \<open>queue\<close>) are stored whenever they are not \<open>None\<close>, so a loss of \<open>0.0\<close> is
  passed on; \<open>delay\<close> and \<open>jitter\<close> are stored only when they are non-empty strings;
  \<open>use_htb\<close> is present exactly when \<open>bw\<close> is given; an absent input leaves its key
  absent, and there are no other keys.
\<close>

theorem tc_link_kwargs_keys:
  "map_of (tc_link_kwargs bw delay jitter loss queue) ''bw'' = map_option PyFloat bw
   \<and> map_of (tc_link_kwargs bw delay jitter loss queue) ''use_htb''
       = (if bw = None then None else Some (PyBool True))
   \<and> map_of (tc_link_kwargs bw delay jitter loss queue) ''delay''
       = (case delay of None \<Rightarrow> None | Some d \<Rightarrow> if d = [] then None else Some (PyStr d))
   \<and> map_of (tc_link_kwargs bw delay jitter loss queue) ''jitter''
       = (case jitter of None \<Rightarrow> None | Some j \<Rightarrow> if j = [] then None else Some (PyStr j))
   \<and> map_of (tc_link_kwargs bw delay jitter loss queue) ''loss'' = map_option PyFloat loss
   \<and> map_of (tc_link_kwargs bw delay jitter (Some 0) queue) ''loss'' = Some (PyFloat 0)
   \<and> map_of (tc_link_kwargs bw (Some []) (Some []) loss queue) ''delay'' = None
   \<and> map_of (tc_link_kwargs bw (Some []) (Some []) loss queue) ''jitter'' = None
   \<and> map_of (tc_link_kwargs bw delay jitter loss queue) ''max_queue_size''
       = map_option PyInt queue
   \<and> fst ` set (tc_link_kwargs bw delay jitter loss queue)
       \<subseteq> {''bw'', ''use_htb'', ''delay'', ''jitter'', ''loss'', ''max_queue_size''}"
proof -
  have dom: "fst ` set (tc_link_kwargs bw delay jitter loss queue)
       \<subseteq> {''bw'', ''use_htb'', ''delay'', ''jitter'', ''loss'', ''max_queue_size''}"
  proof
    fix k assume "k \<in> fst ` set (tc_link_kwargs bw delay jitter loss queue)"
    then have "map_of (tc_link_kwargs bw delay jitter loss queue) k \<noteq> None"
      by (simp add: map_of_eq_None_iff)
    then show "k \<in> {''bw'', ''use_htb'', ''delay'', ''jitter'', ''loss'', ''max_queue_size''}"
      unfolding tc_link_kwargs_lookup by (simp split: if_splits)
  qed
  have 1: "map_of (tc_link_kwargs bw delay jitter loss queue) ''bw'' = map_option PyFloat bw"
    by (cases bw) (simp_all add: tc_link_kwargs_lookup)
  have 2: "map_of (tc_link_kwargs bw delay jitter loss queue) ''use_htb''
       = (if bw = None then None else Some (PyBool True))"
    by (simp add: tc_link_kwargs_lookup)
  have 3: "map_of (tc_link_kwargs bw delay jitter loss queue) ''delay''
       = (case delay of None \<Rightarrow> None | Some d \<Rightarrow> if d = [] then None else Some (PyStr d))"
    by (cases delay) (simp_all add: tc_link_kwargs_lookup)
  have 4: "map_of (tc_link_kwargs bw delay jitter loss queue) ''jitter''
       = (case jitter of None \<Rightarrow> None | Some j \<Rightarrow> if j = [] then None else Some (PyStr j))"
    by (cases jitter) (simp_all add: tc_link_kwargs_lookup)
  have 5: "map_of (tc_link_kwargs bw delay jitter loss queue) ''loss'' = map_option PyFloat loss"
    by (cases loss) (simp_all add: tc_link_kwargs_lookup)
  have 6: "map_of (tc_link_kwargs bw delay jitter (Some 0) queue) ''loss'' = Some (PyFloat 0)"
    by (simp add: tc_link_kwargs_lookup)
  have 7: "map_of (tc_link_kwargs bw (Some []) (Some []) loss queue) ''delay'' = None"
    "map_of (tc_link_kwargs bw (Some []) (Some []) loss queue) ''jitter'' = None"
    by (simp_all add: tc_link_kwargs_lookup)
  have 8: "map_of (tc_link_kwargs bw delay jitter loss queue) ''max_queue_size''
       = map_option PyInt queue"
    by (cases queue) (simp_all add: tc_link_kwargs_lookup)
  from 1 2 3 4 5 6 7 8 dom show ?thesis by blast
qed

text \<open>
  Claim C4, as the specification states it, asks construction to fail on a bandwidth
  that is not strictly positive, a loss outside [0,100] or a queue depth that is not
  strictly positive. \<open>_tc_link_kwargs\<close> checks nothing: with bandwidth \<open>-5\<close>, loss
  \<open>150\<close> and queue depth \<open>0\<close> it returns the dictionary holding these values.
\<close>

theorem tc_link_kwargs_validation_counterexample:
  "\<not> (0 < (- 5 :: real)) \<and> \<not> ((150 :: real) \<le> 100) \<and> \<not> (0 < (0 :: int))
   \<and> tc_link_kwargs_call (Some (- 5)) (Some ''25ms'') (Some ''2ms'') (Some 150) (Some 0)
       = Inr [(''bw'', PyFloat (- 5)), (''use_htb'', PyBool True), (''delay'', PyStr ''25ms''),
              (''jitter'', PyStr ''2ms''), (''loss'', PyFloat 150), (''max_queue_size'', PyInt 0)]"
  by (simp add: tc_link_kwargs_call_def tc_link_kwargs_def)

text \<open>
  Claim C4, amended. Building the link options validates nothing and never fails: for
  all inputs the call returns a dictionary, in which a given bandwidth, loss and queue
  depth is stored unchanged whatever its sign or size, and a given non-empty delay or
  jitter string is stored unchanged whatever it spells.
\<close>

theorem tc_link_kwargs_no_validation:
  "tc_link_kwargs_call bw delay jitter loss queue = Inr (tc_link_kwargs bw delay jitter loss queue)
   \<and> map_of (tc_link_kwargs (Some b) delay jitter loss queue) ''bw'' = Some (PyFloat b)
   \<and> map_of (tc_link_kwargs bw delay jitter (Some l) queue) ''loss'' = Some (PyFloat l)
   \<and> map_of (tc_link_kwargs bw delay jitter loss (Some q)) ''max_queue_size'' = Some (PyInt q)
   \<and> map_of (tc_link_kwargs bw (Some (c # cs)) jitter loss queue) ''delay'' = Some (PyStr (c # cs))
   \<and> map_of (tc_link_kwargs bw delay (Some (c # cs)) loss queue) ''jitter'' = Some (PyStr (c # cs))"
  unfolding tc_link_kwargs_lookup tc_link_kwargs_call_def by simp

subsection \<open>The topology, the neighbour links and the missing binary\<close>

lemma example_env_found:
  "geteuid example_env = 0"
  "find_ndnd example_env s (arg_ndnd default_args) (repo_root_of example_env)
     = Inr ''/usr/local/bin/ndnd''"
  by (simp_all add: example_env_def default_args_def find_ndnd_def)

lemma built_peers:
  assumes "st_links s = built_links"
  shows "access_peers s ''g1'' = [''s1'', ''s2'']" "access_peers s ''g2'' = [''s2'', ''s3'']"
  by (simp_all add: access_peers_def assms built_links_def)

lemma built_status:
  assumes "st_mn_links s = built_mn_links args"
  shows "link_status s ''g1'' ''s1'' = Some ''up''" "link_status s ''g1'' ''s2'' = Some ''down''"
    "link_status s ''g2'' ''s3'' = Some ''up''" "link_status s ''g2'' ''s2'' = Some ''down''"
    "link_status s ''s1'' ''s2'' = Some ''up''" "link_status s ''s2'' ''s3'' = Some ''up''"
  by (simp_all add: link_status_def assms built_mn_links_def)

lemma switched_status:
  assumes "st_mn_links s = switched_mn_links args"
  shows "link_status s ''g1'' ''s1'' = Some ''down''" "link_status s ''g1'' ''s2'' = Some ''up''"
    "link_status s ''g2'' ''s3'' = Some ''down''" "link_status s ''g2'' ''s2'' = Some ''up''"
    "link_status s ''s1'' ''s2'' = Some ''up''" "link_status s ''s2'' ''s3'' = Some ''up''"
  by (simp_all add: link_status_def assms switched_mn_links_def)

text \<open>
  Claim C1. When the run starts (root, \<open>ndnd\<close> found), then in the steady state that
  \<open>main\<close> reaches, each ground node has two candidate access links (\<open>g1\<close> to \<open>s1\<close> and
  \<open>s2\<close>, \<open>g2\<close> to \<open>s2\<close> and \<open>s3\<close>) of which exactly one is up: \<open>g1-s1\<close> and \<open>g2-s3\<close>
  are up, \<open>g1-s2\<close> and \<open>g2-s2\<close> are down. After the handover again exactly one is up, and
  it is the other one: \<open>g1-s2\<close> and \<open>g2-s2\<close> are up, \<open>g1-s1\<close> and \<open>g2-s3\<close> are down. The
  last conjunct says that this is the state of a run in which the timer of the handover
  thread expires, when a positive delay was configured.
\<close>

theorem access_links_one_up:
  assumes "geteuid env = 0"
    and "find_ndnd env (initial_state fs0 t0) (arg_ndnd args) (repo_root_of env) = Inr bin"
    and "steady = snd (main_boot env args (initial_state fs0 t0))"
    and "switched = handover args (wrapper_path_of env args) steady"
  shows "fst (main_boot env args (initial_state fs0 t0)) = None
       \<and> access_peers steady ''g1'' = [''s1'', ''s2''] \<and> access_peers steady ''g2'' = [''s2'', ''s3'']
       \<and> up_peers steady ''g1'' = [''s1''] \<and> up_peers steady ''g2'' = [''s3'']
       \<and> link_status steady ''g1'' ''s1'' = Some ''up''
       \<and> link_status steady ''g1'' ''s2'' = Some ''down''
       \<and> link_status steady ''g2'' ''s3'' = Some ''up''
       \<and> link_status steady ''g2'' ''s2'' = Some ''down''
       \<and> access_peers switched ''g1'' = [''s1'', ''s2''] \<and> access_peers switched ''g2'' = [''s2'', ''s3'']
       \<and> up_peers switched ''g1'' = [''s2''] \<and> up_peers switched ''g2'' = [''s2'']
       \<and> link_status switched ''g1'' ''s1'' = Some ''down''
       \<and> link_status switched ''g1'' ''s2'' = Some ''up''
       \<and> link_status switched ''g2'' ''s3'' = Some ''down''
       \<and> link_status switched ''g2'' ''s2'' = Some ''up''
       \<and> snd (main env args [TimerExpired] (initial_state fs0 t0))
           = (if 0 < arg_handover_after args then switched\<lparr>st_thread := Finished\<rparr> else steady)"
proof -
  from main_boot_ok[OF assms(1,2)] obtain fs t tr where
    boot: "main_boot env args (initial_state fs0 t0) =
           (None, (initial_state fs0 t0)\<lparr>st_fs := fs, st_now := t, st_hosts := node_names,
                    st_mn_links := built_mn_links args, st_subnet_idx := 6,
                    st_links := built_links, st_procs := map (\<lambda>n. (n, n)) node_names,
                    st_trace := st_trace (initial_state fs0 t0) @ tr,
                    st_thread := (if 0 < arg_handover_after args then Sleeping else st_thread (initial_state fs0 t0)),
                    st_alive := True\<rparr>)"
    by blast
  have ok: "fst (main_boot env args (initial_state fs0 t0)) = None" by (simp add: boot)
  have l1: "st_links steady = built_links" and m1: "st_mn_links steady = built_mn_links args"
    and a1: "st_alive steady"
    and t1: "st_thread steady = (if 0 < arg_handover_after args then Sleeping else st_thread (initial_state fs0 t0))"
    unfolding assms(3) boot by simp_all
  have sw: "switched = steady\<lparr>st_mn_links := switched_mn_links args,
       st_trace := st_trace steady @
         [InfoHandover, ConfigLinkStatus ''g1'' ''s1'' ''down'', ConfigLinkStatus ''g1'' ''s2'' ''up'',
          ConfigLinkStatus ''g2'' ''s3'' ''down'', ConfigLinkStatus ''g2'' ''s2'' ''up'']
         @ map (\<lambda>(h, c). NodeCmd h c) (handover_cmds (wrapper_path_of env args) (arg_udp_port args))\<rparr>"
    unfolding assms(4) using m1 l1 by (rule handover_built)
  have l2: "st_links switched = built_links" and m2: "st_mn_links switched = switched_mn_links args"
    unfolding sw by (simp_all add: l1)
  have up1: "up_peers steady ''g1'' = [''s1'']" "up_peers steady ''g2'' = [''s3'']"
    by (simp_all add: up_peers_def built_peers[OF l1] built_status[OF m1])
  have up2: "up_peers switched ''g1'' = [''s2'']" "up_peers switched ''g2'' = [''s2'']"
    by (simp_all add: up_peers_def built_peers[OF l2] switched_status[OF m2])
  have run: "snd (main env args [TimerExpired] (initial_state fs0 t0))
           = (if 0 < arg_handover_after args then switched\<lparr>st_thread := Finished\<rparr> else steady)"
  proof -
    have "main_boot env args (initial_state fs0 t0) = (None, steady)" using ok assms(3) by (simp add: prod_eq_iff)
    then have "snd (main env args [TimerExpired] (initial_state fs0 t0)) = step env args TimerExpired steady"
      by (simp add: main_def run_def)
    also have "\<dots> = (if 0 < arg_handover_after args then switched\<lparr>st_thread := Finished\<rparr> else steady)"
      using a1 t1 by (simp add: assms(4) initial_state_def)
    finally show ?thesis .
  qed
  from ok built_peers[OF l1] built_peers[OF l2] up1 up2 built_status(1-4)[OF m1]
    switched_status(1-4)[OF m2] run
  show ?thesis by simp
qed

theorem access_links_one_up_witness:
  "geteuid example_env = 0
   \<and> find_ndnd example_env (initial_state Map.empty 0) (arg_ndnd default_args)
        (repo_root_of example_env) = Inr ''/usr/local/bin/ndnd''
   \<and> up_peers (snd (main_boot example_env default_args (initial_state Map.empty 0))) ''g1'' = [''s1'']
   \<and> up_peers (snd (main_boot example_env default_args (initial_state Map.empty 0))) ''g2'' = [''s3'']
   \<and> up_peers (handover default_args (wrapper_path_of example_env default_args)
        (snd (main_boot example_env default_args (initial_state Map.empty 0)))) ''g1'' = [''s2'']
   \<and> up_peers (handover default_args (wrapper_path_of example_env default_args)
        (snd (main_boot example_env default_args (initial_state Map.empty 0)))) ''g2'' = [''s2'']"
  using access_links_one_up[OF example_env_found(1) example_env_found(2) refl refl, of Map.empty 0]
    example_env_found
  by blast

text \<open>
  Claim C6. The first linking pass sends two commands per link, one from each end, each
  a \<open>dv link-create\<close> through the wrapper with the URI \<open>udp://<address of the other
  end>:<UDP port>\<close>, for exactly the links that are up in the steady state: the two
  backbone links, \<open>g1-s1\<close> and \<open>g2-s3\<close>, and not for \<open>g1-s2\<close> and \<open>g2-s2\<close>. The pass
  inside the handover sends them for exactly the two links that the handover brought up,
  \<open>g1-s2\<close> and \<open>g2-s2\<close>, and nothing else. The second conjunct lists the addresses that
  the two ends of every link were given.
\<close>

theorem neighbor_commands:
  assumes "geteuid env = 0"
    and "find_ndnd env (initial_state fs0 t0) (arg_ndnd args) (repo_root_of env) = Inr bin"
    and "steady = snd (main_boot env args (initial_state fs0 t0))"
    and "switched = handover args (wrapper_path_of env args) steady"
    and "w = wrapper_path_of env args" and "port = arg_udp_port args"
  shows "node_cmds (st_trace steady) =
           concat (map (link_cmds w port)
             (filter (\<lambda>l. link_status steady (l_a l) (l_b l) = Some ''up'') (st_links steady)))
       \<and> map (\<lambda>l. (ml_node1 l, ml_ip1 l, ml_node2 l, ml_ip2 l)) (st_mn_links steady) =
           [(''s1'', ''10.0.0.1/30'', ''s2'', ''10.0.0.2/30''),
            (''s2'', ''10.0.0.5/30'', ''s3'', ''10.0.0.6/30''),
            (''g1'', ''10.0.0.9/30'', ''s1'', ''10.0.0.10/30''),
            (''g1'', ''10.0.0.13/30'', ''s2'', ''10.0.0.14/30''),
            (''g2'', ''10.0.0.17/30'', ''s2'', ''10.0.0.18/30''),
            (''g2'', ''10.0.0.21/30'', ''s3'', ''10.0.0.22/30'')]
       \<and> up_links steady = [(''s1'', ''s2''), (''s2'', ''s3''), (''g1'', ''s1''), (''g2'', ''s3'')]
       \<and> node_cmds (st_trace steady) =
           map (\<lambda>(host, peer_ip).
                  (host, CHR 0x22 # w @ CHR 0x22 # '' dv link-create '' @ CHR 0x22 # ''udp://''
                      @ peer_ip @ '':'' @ show_int port @ CHR 0x22 # '' >/dev/null 2>&1 || true''))
             [(''s1'', ''10.0.0.2''), (''s2'', ''10.0.0.1''), (''s2'', ''10.0.0.6''),
              (''s3'', ''10.0.0.5''), (''g1'', ''10.0.0.10''), (''s1'', ''10.0.0.9''),
              (''g2'', ''10.0.0.22''), (''s3'', ''10.0.0.21'')]
       \<and> node_cmds (st_trace switched) = node_cmds (st_trace steady) @
           concat (map (link_cmds w port)
             (filter (\<lambda>l. link_status switched (l_a l) (l_b l) = Some ''up''
                        \<and> link_status steady (l_a l) (l_b l) \<noteq> Some ''up'') (st_links switched)))
       \<and> filter (\<lambda>l. l \<notin> set (up_links steady)) (up_links switched)
           = [(''g1'', ''s2''), (''g2'', ''s2'')]
       \<and> node_cmds (st_trace switched) = node_cmds (st_trace steady) @
           map (\<lambda>(host, peer_ip).
                  (host, CHR 0x22 # w @ CHR 0x22 # '' dv link-create '' @ CHR 0x22 # ''udp://''
                      @ peer_ip @ '':'' @ show_int port @ CHR 0x22 # '' >/dev/null 2>&1 || true''))
             [(''g1'', ''10.0.0.14''), (''s2'', ''10.0.0.13''), (''g2'', ''10.0.0.18''),
              (''s2'', ''10.0.0.17'')]"
proof -
  from main_boot_ok[OF assms(1,2)] obtain fs t tr where
    boot: "main_boot env args (initial_state fs0 t0) =
           (None, (initial_state fs0 t0)\<lparr>st_fs := fs, st_now := t, st_hosts := node_names,
                    st_mn_links := built_mn_links args, st_subnet_idx := 6,
                    st_links := built_links, st_procs := map (\<lambda>n. (n, n)) node_names,
                    st_trace := st_trace (initial_state fs0 t0) @ tr,
                    st_thread := (if 0 < arg_handover_after args then Sleeping
                                  else st_thread (initial_state fs0 t0)),
                    st_alive := True\<rparr>)"
    and nc: "node_cmds tr = initial_cmds w port"
    unfolding assms(5,6) by blast
  have l1: "st_links steady = built_links" and m1: "st_mn_links steady = built_mn_links args"
    and tr1: "st_trace steady = tr"
    unfolding assms(3) boot by (simp_all add: initial_state_def)
  have sw: "switched = steady\<lparr>st_mn_links := switched_mn_links args,
       st_trace := st_trace steady @
         [InfoHandover, ConfigLinkStatus ''g1'' ''s1'' ''down'', ConfigLinkStatus ''g1'' ''s2'' ''up'',
          ConfigLinkStatus ''g2'' ''s3'' ''down'', ConfigLinkStatus ''g2'' ''s2'' ''up'']
         @ map (\<lambda>(h, c). NodeCmd h c) (handover_cmds w port)\<rparr>"
    unfolding assms(4,5,6) using m1 l1 by (rule handover_built)
  have l2: "st_links switched = built_links" and m2: "st_mn_links switched = switched_mn_links args"
    unfolding sw by (simp_all add: l1)
  have c1: "node_cmds (st_trace steady) = initial_cmds w port" using nc tr1 by simp
  have c2: "node_cmds (st_trace switched) = node_cmds (st_trace steady) @ handover_cmds w port"
    unfolding sw by (simp add: node_cmds_append node_cmds_map)
  have f1: "filter (\<lambda>l. link_status steady (l_a l) (l_b l) = Some ''up'') (st_links steady)
        = [built_links ! 0, built_links ! 1, built_links ! 2, built_links ! 5]"
    unfolding l1 by (simp add: built_links_def built_status[OF m1])
  have f2: "filter (\<lambda>l. link_status switched (l_a l) (l_b l) = Some ''up''
                        \<and> link_status steady (l_a l) (l_b l) \<noteq> Some ''up'') (st_links switched)
        = [built_links ! 3, built_links ! 4]"
    unfolding l2 by (simp add: built_links_def built_status[OF m1] switched_status[OF m2])
  have u1: "up_links steady = [(''s1'', ''s2''), (''s2'', ''s3''), (''g1'', ''s1''), (''g2'', ''s3'')]"
    unfolding up_links_def f1 by (simp add: built_links_def)
  have u2: "up_links switched = [(''s1'', ''s2''), (''s2'', ''s3''), (''g1'', ''s2''), (''g2'', ''s2'')]"
    unfolding up_links_def l2 by (simp add: built_links_def switched_status[OF m2])
  have ips: "map (\<lambda>l. (ml_node1 l, ml_ip1 l, ml_node2 l, ml_ip2 l)) (st_mn_links steady) =
           [(''s1'', ''10.0.0.1/30'', ''s2'', ''10.0.0.2/30''),
            (''s2'', ''10.0.0.5/30'', ''s3'', ''10.0.0.6/30''),
            (''g1'', ''10.0.0.9/30'', ''s1'', ''10.0.0.10/30''),
            (''g1'', ''10.0.0.13/30'', ''s2'', ''10.0.0.14/30''),
            (''g2'', ''10.0.0.17/30'', ''s2'', ''10.0.0.18/30''),
            (''g2'', ''10.0.0.21/30'', ''s3'', ''10.0.0.22/30'')]"
    unfolding m1 by (simp add: built_mn_links_def)
  have a: "node_cmds (st_trace steady) =
           concat (map (link_cmds w port)
             (filter (\<lambda>l. link_status steady (l_a l) (l_b l) = Some ''up'') (st_links steady)))"
    unfolding f1 c1
    by (simp add: built_links_def initial_cmds_def link_cmds_def link_create_cmd_def ndndctl_def
        dq_def)
  have b: "node_cmds (st_trace switched) = node_cmds (st_trace steady) @
           concat (map (link_cmds w port)
             (filter (\<lambda>l. link_status switched (l_a l) (l_b l) = Some ''up''
                        \<and> link_status steady (l_a l) (l_b l) \<noteq> Some ''up'') (st_links switched)))"
    unfolding f2 c2
    by (simp add: built_links_def handover_cmds_def link_cmds_def link_create_cmd_def ndndctl_def
        dq_def)
  have n: "filter (\<lambda>l. l \<notin> set (up_links steady)) (up_links switched)
           = [(''g1'', ''s2''), (''g2'', ''s2'')]"
    unfolding u1 u2 by simp
  have c1': "node_cmds (st_trace steady) =
           map (\<lambda>(host, peer_ip).
                  (host, CHR 0x22 # w @ CHR 0x22 # '' dv link-create '' @ CHR 0x22 # ''udp://''
                      @ peer_ip @ '':'' @ show_int port @ CHR 0x22 # '' >/dev/null 2>&1 || true''))
             [(''s1'', ''10.0.0.2''), (''s2'', ''10.0.0.1''), (''s2'', ''10.0.0.6''),
              (''s3'', ''10.0.0.5''), (''g1'', ''10.0.0.10''), (''s1'', ''10.0.0.9''),
              (''g2'', ''10.0.0.22''), (''s3'', ''10.0.0.21'')]"
    unfolding c1 by (simp add: initial_cmds_def link_create_cmd_def ndndctl_def dq_def)
  have c2': "node_cmds (st_trace switched) = node_cmds (st_trace steady) @
           map (\<lambda>(host, peer_ip).
                  (host, CHR 0x22 # w @ CHR 0x22 # '' dv link-create '' @ CHR 0x22 # ''udp://''
                      @ peer_ip @ '':'' @ show_int port @ CHR 0x22 # '' >/dev/null 2>&1 || true''))
             [(''g1'', ''10.0.0.14''), (''s2'', ''10.0.0.13''), (''g2'', ''10.0.0.18''),
              (''s2'', ''10.0.0.17'')]"
    unfolding c2 by (simp add: handover_cmds_def link_create_cmd_def ndndctl_def dq_def)
  from a ips u1 c1' b n c2' show ?thesis by (intro conjI)
qed

theorem neighbor_commands_witness:
  "geteuid example_env = 0
   \<and> find_ndnd example_env (initial_state Map.empty 0) (arg_ndnd default_args)
        (repo_root_of example_env) = Inr ''/usr/local/bin/ndnd''
   \<and> up_links (snd (main_boot example_env default_args (initial_state Map.empty 0)))
       = [(''s1'', ''s2''), (''s2'', ''s3''), (''g1'', ''s1''), (''g2'', ''s3'')]
   \<and> node_cmds (st_trace (snd (main_boot example_env default_args (initial_state Map.empty 0))))
       = map (\<lambda>(host, peer_ip).
                (host, CHR 0x22 # ''/tmp/ndn-mn/ndndctl'' @ CHR 0x22 # '' dv link-create ''
                    @ CHR 0x22 # ''udp://'' @ peer_ip @ '':6363'' @ CHR 0x22
                    # '' >/dev/null 2>&1 || true''))
           [(''s1'', ''10.0.0.2''), (''s2'', ''10.0.0.1''), (''s2'', ''10.0.0.6''),
            (''s3'', ''10.0.0.5''), (''g1'', ''10.0.0.10''), (''s1'', ''10.0.0.9''),
            (''g2'', ''10.0.0.22''), (''s3'', ''10.0.0.21'')]
   \<and> drop 8 (node_cmds (st_trace (handover default_args (wrapper_path_of example_env default_args)
        (snd (main_boot example_env default_args (initial_state Map.empty 0))))))
       = map (\<lambda>(host, peer_ip).
                (host, CHR 0x22 # ''/tmp/ndn-mn/ndndctl'' @ CHR 0x22 # '' dv link-create ''
                    @ CHR 0x22 # ''udp://'' @ peer_ip @ '':6363'' @ CHR 0x22
                    # '' >/dev/null 2>&1 || true''))
           [(''g1'', ''10.0.0.14''), (''s2'', ''10.0.0.13''), (''g2'', ''10.0.0.18''),
            (''s2'', ''10.0.0.17'')]"
proof -
  note w = neighbor_commands[OF example_env_found(1) example_env_found(2) refl refl refl refl,
      of Map.empty 0]
  have wp: "wrapper_path_of example_env default_args = ''/tmp/ndn-mn/ndndctl''"
    by (simp add: wrapper_path_of_def state_dir_of_def example_env_def default_args_def
        path_join_def path_join2_def isabs_def)
  have pt: "show_int (arg_udp_port default_args) = ''6363''"
    by (simp add: default_args_def show_int_def show_nat_small show_nat_large digit_char_def)
  note u = w[THEN conjunct2, THEN conjunct2, THEN conjunct1]
  note c = w[THEN conjunct2, THEN conjunct2, THEN conjunct2, THEN conjunct1]
  note h = w[THEN conjunct2, THEN conjunct2, THEN conjunct2, THEN conjunct2, THEN conjunct2,
      THEN conjunct2]
  have c': "node_cmds (st_trace (snd (main_boot example_env default_args (initial_state Map.empty 0))))
       = map (\<lambda>(host, peer_ip).
                (host, CHR 0x22 # ''/tmp/ndn-mn/ndndctl'' @ CHR 0x22 # '' dv link-create ''
                    @ CHR 0x22 # ''udp://'' @ peer_ip @ '':6363'' @ CHR 0x22
                    # '' >/dev/null 2>&1 || true''))
           [(''s1'', ''10.0.0.2''), (''s2'', ''10.0.0.1''), (''s2'', ''10.0.0.6''),
            (''s3'', ''10.0.0.5''), (''g1'', ''10.0.0.10''), (''s1'', ''10.0.0.9''),
            (''g2'', ''10.0.0.22''), (''s3'', ''10.0.0.21'')]"
    unfolding c wp pt by simp
  have h': "drop 8 (node_cmds (st_trace (handover default_args (wrapper_path_of example_env default_args)
        (snd (main_boot example_env default_args (initial_state Map.empty 0))))))
       = map (\<lambda>(host, peer_ip).
                (host, CHR 0x22 # ''/tmp/ndn-mn/ndndctl'' @ CHR 0x22 # '' dv link-create ''
                    @ CHR 0x22 # ''udp://'' @ peer_ip @ '':6363'' @ CHR 0x22
                    # '' >/dev/null 2>&1 || true''))
           [(''g1'', ''10.0.0.14''), (''s2'', ''10.0.0.13''), (''g2'', ''10.0.0.18''),
            (''s2'', ''10.0.0.17'')]"
    unfolding h c' unfolding wp pt by simp
  from example_env_found(1) example_env_found(2)[of "initial_state Map.empty 0"] u c' h'
  show ?thesis by (intro conjI)
qed

text \<open>
  Claim C7. When no explicit path is given, \<open>ndnd\<close> is not on the search path and the
  conventional \<open>ndnd/ndnd\<close> below the repository root does not exist, the run ends with
  an error and leaves the state exactly as it found it: no host, no file, no child
  process and no call to the outside.
\<close>

theorem unresolved_binary_aborts:
  assumes "\<not> truthy (arg_ndnd args)" and "\<not> truthy (which_ndnd env)"
    and "\<not> path_exists env s (path_join (repo_root_of env) [''ndnd'', ''ndnd''])"
  shows "main env args es s =
           (Some (if geteuid env \<noteq> 0 then PermissionError ''Mininet requires root.''
                  else FileNotFoundError ''Cannot find ndnd binary.''), s)
       \<and> fst (main env args es s) \<noteq> None
       \<and> st_hosts (snd (main env args es s)) = st_hosts s
       \<and> st_fs (snd (main env args es s)) = st_fs s
       \<and> st_procs (snd (main env args es s)) = st_procs s
       \<and> st_trace (snd (main env args es s)) = st_trace s"
proof -
  have f: "find_ndnd env s (arg_ndnd args) (repo_root_of env)
             = Inl (FileNotFoundError ''Cannot find ndnd binary.'')"
    using assms by (simp add: find_ndnd_def Let_def)
  have "main_boot env args s =
           (Some (if geteuid env \<noteq> 0 then PermissionError ''Mininet requires root.''
                  else FileNotFoundError ''Cannot find ndnd binary.''), s)"
    by (simp add: main_boot_def ensure_root_def f)
  then show ?thesis by (simp add: main_def)
qed

theorem unresolved_binary_aborts_witness:
  "\<not> truthy (arg_ndnd default_args) \<and> \<not> truthy (which_ndnd no_ndnd_env)
   \<and> \<not> path_exists no_ndnd_env (initial_state Map.empty 0)
         (path_join (repo_root_of no_ndnd_env) [''ndnd'', ''ndnd''])
   \<and> main no_ndnd_env default_args [] (initial_state Map.empty 0)
       = (Some (FileNotFoundError ''Cannot find ndnd binary.''), initial_state Map.empty 0)"
proof -
  have h: "\<not> truthy (arg_ndnd default_args)" "\<not> truthy (which_ndnd no_ndnd_env)"
    "\<not> path_exists no_ndnd_env (initial_state Map.empty 0)
         (path_join (repo_root_of no_ndnd_env) [''ndnd'', ''ndnd''])"
    by (simp_all add: default_args_def no_ndnd_env_def example_env_def path_exists_def
        initial_state_def repo_root_of_def path_join_def path_join2_def isabs_def node_names_def)
  have e: "geteuid no_ndnd_env = 0" by (simp add: no_ndnd_env_def example_env_def)
  from unresolved_binary_aborts[OF h, of "[]"] h e show ?thesis by simp
qed

subsection \<open>The readiness wait\<close>














subsection \<open>The shutdown\<close>

lemma stop_proc_result:
  "stop_proc env (name, p) s =
     (None, s\<lparr>st_now := st_now s + (if term_outcome_of env p = WaitTimesOut then 2000 else 0),
              st_trace := st_trace s @ stop_calls env p,
              st_procs := AList.delete name (st_procs s)\<rparr>)"
  by (cases "term_outcome_of env p"; cases "kill_raises env p")
     (simp_all add: stop_proc_def stmt_defs proc_send_signal_def proc_wait_def proc_kill_def
       procs_pop_def trace_def advance_def stop_calls_def)

lemma for_each_stop:
  "for_each items (stop_proc env) s =
     (None, s\<lparr>st_now := st_now s + wait_total env items,
              st_trace := st_trace s @ concat (map (\<lambda>(name, p). stop_calls env p) items),
              st_procs := filter (\<lambda>(k, v). k \<notin> fst ` set items) (st_procs s)\<rparr>)"
proof (induction items arbitrary: s)
  case Nil
  have "filter (\<lambda>(k, v). True) (st_procs s) = st_procs s" by (induction "st_procs s") auto
  then show ?case by (simp add: pass_def wait_total_def split_def)
next
  case (Cons it items)
  obtain name p where it: "it = (name, p)" by (cases it)
  have f: "filter (\<lambda>(k, v). k \<notin> fst ` set items) (AList.delete name ps)
         = filter (\<lambda>(k, v). k \<notin> fst ` set ((name, p) # items)) ps" for ps :: "(string \<times> string) list"
    by (induction ps) (auto simp: AList.delete_eq)
  show ?case
    unfolding it for_each.simps seq_def stop_proc_result
    by (simp add: Cons.IH f wait_total_def)
qed

lemma net_stop_result:
  "try_except (net_stop env) pass s =
     (None, s\<lparr>st_trace := st_trace s @ [NetStop], st_net_stops := st_net_stops s + 1\<rparr>)"
  by (simp add: try_except_def net_stop_def pass_def trace_def Let_def)

lemma cleanup_result:
  "cleanup env s =
     (None, s\<lparr>st_now := st_now s + wait_total env (st_procs s),
              st_trace := st_trace s @ concat (map (\<lambda>(name, p). stop_calls env p) (st_procs s))
                            @ [NetStop],
              st_procs := [],
              st_net_stops := st_net_stops s + 1\<rparr>)"
proof -
  have e: "filter (\<lambda>(k, v). k \<notin> fst ` set ps) ps = []" for ps :: "(string \<times> string) list"
    by (induction ps) (auto simp: filter_empty_conv)
  show ?thesis
    unfolding cleanup_def seq_def for_each_stop net_stop_result by (simp add: e)
qed



subsection \<open>The handover happens at most once\<close>

lemma handover_count_upd:
  "handover_count (s\<lparr>st_alive := b\<rparr>) = handover_count s"
  "handover_count (s\<lparr>st_thread := th\<rparr>) = handover_count s"
  "handover_count (s\<lparr>st_cleaning := c\<rparr>) = handover_count s"
  by (simp_all add: handover_count_def)

lemma stop_calls_no_handover: "filter (\<lambda>c. c = InfoHandover) (stop_calls env p) = []"
  by (cases "term_outcome_of env p") (simp_all add: stop_calls_def)

lemma stop_proc_keeps:
  "handover_count (snd (stop_proc env item s)) = handover_count s"
  "st_mn_links (snd (stop_proc env item s)) = st_mn_links s"
  "st_thread (snd (stop_proc env item s)) = st_thread s"
  "st_alive (snd (stop_proc env item s)) = st_alive s"
  "st_cleaning (snd (stop_proc env item s)) = st_cleaning s"
  by (cases item; simp add: stop_proc_result handover_count_def stop_calls_no_handover)+

lemma net_stop_keeps:
  "handover_count (snd (try_except (net_stop env) pass s)) = handover_count s"
  "st_mn_links (snd (try_except (net_stop env) pass s)) = st_mn_links s"
  "st_thread (snd (try_except (net_stop env) pass s)) = st_thread s"
  by (simp_all add: net_stop_result handover_count_def)

lemma step_dead: "\<not> st_alive s \<Longrightarrow> step env args e s = s"
  by (cases e) simp_all

lemma run_dead: "\<not> st_alive s \<Longrightarrow> run env args es s = s"
  unfolding run_def by (induction es) (simp_all add: step_dead)

lemma run_Cons: "run env args (e # es) s = run env args es (step env args e s)"
  by (simp add: run_def)

lemma run_append: "run env args (es @ es') s = run env args es' (run env args es s)"
  by (simp add: run_def)

lemma step_quiet:
  assumes "st_thread s \<noteq> Sleeping \<or> e \<noteq> TimerExpired"
  shows "handover_count (step env args e s) = handover_count s"
    and "st_mn_links (step env args e s) = st_mn_links s"
    and "st_thread (step env args e s) = st_thread s"
proof -
  have "handover_count (step env args e s) = handover_count s
      \<and> st_mn_links (step env args e s) = st_mn_links s
      \<and> st_thread (step env args e s) = st_thread s"
  proof (cases e)
    case TimerExpired
    with assms show ?thesis by simp
  next
    case Exit
    then show ?thesis by (simp add: handover_count_upd)
  next
    case CleanupStep
    show ?thesis
    proof (cases "st_cleaning s")
      case None
      with CleanupStep show ?thesis by simp
    next
      case (Some items)
      with CleanupStep show ?thesis
        by (cases items) (simp_all add: handover_count_upd stop_proc_keeps net_stop_keeps)
    qed
  qed
  then show "handover_count (step env args e s) = handover_count s"
    and "st_mn_links (step env args e s) = st_mn_links s"
    and "st_thread (step env args e s) = st_thread s" by simp_all
qed

lemma run_no_sleeper:
  "st_thread s \<noteq> Sleeping \<Longrightarrow>
     handover_count (run env args es s) = handover_count s
     \<and> st_mn_links (run env args es s) = st_mn_links s
     \<and> st_thread (run env args es s) = st_thread s"
proof (induction es arbitrary: s)
  case Nil
  then show ?case by (simp add: run_def)
next
  case (Cons e es)
  have q: "st_thread s \<noteq> Sleeping \<or> e \<noteq> TimerExpired" using Cons.prems by simp
  have "st_thread (step env args e s) \<noteq> Sleeping" using step_quiet(3)[OF q] Cons.prems by simp
  from Cons.IH[OF this] show ?case
    unfolding run_Cons by (simp add: step_quiet[OF q])
qed

lemma link_handover_count:
  "handover_count (link_handover args w ls s) = handover_count s"
proof (induction ls arbitrary: s)
  case Nil
  show ?case by simp
next
  case (Cons l ls)
  show ?case
    by (simp add: Let_def Cons.IH) (simp add: handover_count_def node_cmd_def trace_def)
qed

lemma handover_counts: "handover_count (handover args w s) = handover_count s + 1"
  unfolding handover_def Let_def link_handover_count
  by (simp add: handover_count_def configLinkStatus_def trace_def)

lemma run_sleeper:
  assumes "st_alive s" and "st_thread s = Sleeping"
    and "left = map_option (\<lambda>items. Suc (length items)) (st_cleaning s)"
    and "st_cleaning s = None \<longrightarrow> n = length (st_procs s)"
  shows "handover_count (run env args es s)
           = handover_count s + (if fires_before_end n left es then 1 else 0)"
  using assms
proof (induction es arbitrary: s left)
  case Nil
  then show ?case by (simp add: run_def)
next
  case (Cons e es)
  note al = Cons.prems(1) and th = Cons.prems(2) and lf = Cons.prems(3) and nn = Cons.prems(4)
  show ?case
  proof (cases e)
    case TimerExpired
    let ?s1 = "(handover args (wrapper_path_of env args) s)\<lparr>st_thread := Finished\<rparr>"
    have "run env args (e # es) s = run env args es ?s1"
      unfolding run_Cons TimerExpired using al th by simp
    moreover have "handover_count (run env args es ?s1) = handover_count ?s1"
      using run_no_sleeper[of ?s1 env args es] by simp
    moreover have "handover_count ?s1 = handover_count s + 1"
      using handover_counts[of args "wrapper_path_of env args" s] by (simp add: handover_count_upd)
    moreover have "fires_before_end n left (e # es)" by (simp add: TimerExpired)
    ultimately show ?thesis by simp
  next
    case Exit
    show ?thesis
    proof (cases "st_cleaning s")
      case None
      let ?s1 = "s\<lparr>st_cleaning := Some (st_procs s)\<rparr>"
      have st: "step env args Exit s = ?s1" using al None by simp
      have l0: "left = None" using lf None by simp
      have n0: "n = length (st_procs s)" using nn None by simp
      have "handover_count (run env args es ?s1)
           = handover_count ?s1 + (if fires_before_end n (Some (Suc n)) es then 1 else 0)"
        by (rule Cons.IH) (use al th n0 in simp_all)
      then show ?thesis unfolding Exit run_Cons st l0 by (simp add: handover_count_upd)
    next
      case (Some items)
      have st: "step env args Exit s = s" using Some by simp
      have l0: "left = Some (Suc (length items))" using lf Some by simp
      from Cons.IH[OF al th lf nn] show ?thesis unfolding Exit run_Cons st l0 by simp
    qed
  next
    case CleanupStep
    show ?thesis
    proof (cases "st_cleaning s")
      case None
      have st: "step env args CleanupStep s = s" using None by simp
      have l0: "left = None" using lf None by simp
      from Cons.IH[OF al th lf nn] show ?thesis unfolding CleanupStep run_Cons st l0 by simp
    next
      case (Some items)
      show ?thesis
      proof (cases items)
        case Nil
        let ?s1 = "(snd (try_except (net_stop env) pass s))\<lparr>st_alive := False\<rparr>"
        have st: "step env args CleanupStep s = ?s1" using al Some Nil by simp
        have l0: "left = Some 1" using lf Some Nil by simp
        have "run env args es ?s1 = ?s1" by (rule run_dead) simp
        then show ?thesis unfolding CleanupStep run_Cons st l0
          by (simp add: handover_count_upd net_stop_keeps)
      next
        case (Cons item rest)
        let ?s1 = "(snd (stop_proc env item s))\<lparr>st_cleaning := Some rest\<rparr>"
        have st: "step env args CleanupStep s = ?s1" using al Some Cons by simp
        have l0: "left = Some (Suc (Suc (length rest)))" using lf Some Cons by simp
        have "handover_count (run env args es ?s1)
           = handover_count ?s1 + (if fires_before_end n (Some (Suc (length rest))) es then 1 else 0)"
          by (rule Cons.IH) (use al th in \<open>simp_all add: stop_proc_keeps\<close>)
        then show ?thesis unfolding CleanupStep run_Cons st l0
          by (simp add: handover_count_upd stop_proc_keeps)
      qed
    qed
  qed
qed

text \<open>The pieces of \<open>cleanup\<close>, done one after the other with nothing in between, are
  \<open>cleanup\<close>.\<close>

lemma cleanup_rounds:
  assumes "st_alive s" and "st_cleaning s = Some items"
  shows "run env args (replicate (length items) CleanupStep) s
           = (snd (for_each items (stop_proc env) s))\<lparr>st_cleaning := Some []\<rparr>"
  using assms
proof (induction items arbitrary: s)
  case Nil
  then show ?case by (simp add: run_def pass_def)
next
  case (Cons item items)
  let ?s1 = "(snd (stop_proc env item s))\<lparr>st_cleaning := Some items\<rparr>"
  have st: "step env args CleanupStep s = ?s1" using Cons.prems by simp
  have a1: "st_alive ?s1" "st_cleaning ?s1 = Some items"
    using Cons.prems by (simp_all add: stop_proc_keeps)
  obtain name p where it: "item = (name, p)" by (cases item)
  have sp: "stop_proc env item s = (None, snd (stop_proc env item s))"
    unfolding it stop_proc_result by simp
  have fe: "for_each items (stop_proc env) ?s1
      = (fst (for_each items (stop_proc env) (snd (stop_proc env item s))),
         (snd (for_each items (stop_proc env) (snd (stop_proc env item s))))\<lparr>st_cleaning := Some items\<rparr>)"
    unfolding for_each_stop by simp
  have rp: "replicate (length (item # items)) CleanupStep
      = CleanupStep # replicate (length items) CleanupStep" by simp
  have "run env args (replicate (length (item # items)) CleanupStep) s
      = run env args (replicate (length items) CleanupStep) ?s1"
    unfolding rp run_Cons st ..
  also have "\<dots> = (snd (for_each items (stop_proc env) ?s1))\<lparr>st_cleaning := Some []\<rparr>"
    by (rule Cons.IH[OF a1])
  also have "\<dots> = (snd (for_each items (stop_proc env) (snd (stop_proc env item s))))
                  \<lparr>st_cleaning := Some []\<rparr>"
    unfolding fe by simp
  also have "\<dots> = (snd (for_each (item # items) (stop_proc env) s))\<lparr>st_cleaning := Some []\<rparr>"
  proof -
    have "for_each (item # items) (stop_proc env) s
        = (case stop_proc env item s of
             (None, s1) \<Rightarrow> for_each items (stop_proc env) s1
           | (Some e, s1) \<Rightarrow> (Some e, s1))"
      by (simp add: seq_def)
    also have "\<dots> = for_each items (stop_proc env) (snd (stop_proc env item s))"
      by (subst sp) simp
    finally show ?thesis by simp
  qed
  finally show ?case .
qed

lemma filter_own_keys: "filter (\<lambda>(k, v). k \<notin> fst ` set ps) ps = []"
  by (induction ps) (auto simp: filter_empty_conv)

lemma cleanup_steps:
  assumes "st_alive s" and "st_cleaning s = None"
  shows "run env args (Exit # replicate (length (st_procs s)) CleanupStep @ [CleanupStep]) s
           = (snd (cleanup env s))\<lparr>st_cleaning := Some [], st_alive := False\<rparr>"
proof -
  let ?s1 = "s\<lparr>st_cleaning := Some (st_procs s)\<rparr>"
  have st: "step env args Exit s = ?s1" using assms by simp
  have a1: "st_alive ?s1" "st_cleaning ?s1 = Some (st_procs s)" using assms by simp_all
  let ?s2 = "(snd (for_each (st_procs s) (stop_proc env) ?s1))\<lparr>st_cleaning := Some []\<rparr>"
  have r: "run env args (replicate (length (st_procs s)) CleanupStep) ?s1 = ?s2"
    by (rule cleanup_rounds[OF a1])
  have a2: "st_alive ?s2" "st_cleaning ?s2 = Some []"
    unfolding for_each_stop using assms by simp_all
  have "run env args (Exit # replicate (length (st_procs s)) CleanupStep @ [CleanupStep]) s
      = step env args CleanupStep ?s2"
    unfolding run_Cons st run_append r by (simp add: run_def)
  also have "\<dots> = (snd (try_except (net_stop env) pass ?s2))\<lparr>st_alive := False\<rparr>"
    using a2 by simp
  also have "\<dots> = (snd (cleanup env s))\<lparr>st_cleaning := Some [], st_alive := False\<rparr>"
    unfolding cleanup_result net_stop_result for_each_stop by (simp add: filter_own_keys)
  finally show ?thesis .
qed

lemma main_run_count:
  assumes "geteuid env = 0"
    and "find_ndnd env (initial_state fs0 t0) (arg_ndnd args) (repo_root_of env) = Inr bin"
  shows "fst (main env args es (initial_state fs0 t0)) = None
       \<and> handover_count (snd (main env args es (initial_state fs0 t0)))
           = (if 0 < arg_handover_after args \<and> timer_fires es then 1 else 0)
       \<and> (\<not> 0 < arg_handover_after args \<longrightarrow>
            st_thread (snd (main env args es (initial_state fs0 t0))) = NoThread
            \<and> st_mn_links (snd (main env args es (initial_state fs0 t0)))
                = st_mn_links (snd (main_boot env args (initial_state fs0 t0)))
            \<and> st_mn_links (snd (main env args es (initial_state fs0 t0))) = built_mn_links args)
       \<and> snd (main env args (Exit # replicate 5 CleanupStep @ [CleanupStep]) (initial_state fs0 t0))
           = (snd (cleanup env (snd (main_boot env args (initial_state fs0 t0)))))
               \<lparr>st_cleaning := Some [], st_alive := False\<rparr>"
proof -
  from main_boot_ok[OF assms] obtain fs t tr where
    boot: "main_boot env args (initial_state fs0 t0) =
           (None, (initial_state fs0 t0)\<lparr>st_fs := fs, st_now := t, st_hosts := node_names,
                    st_mn_links := built_mn_links args, st_subnet_idx := 6,
                    st_links := built_links, st_procs := map (\<lambda>n. (n, n)) node_names,
                    st_trace := st_trace (initial_state fs0 t0) @ tr,
                    st_thread := (if 0 < arg_handover_after args then Sleeping
                                  else st_thread (initial_state fs0 t0)),
                    st_alive := True\<rparr>)"
    and nh: "filter (\<lambda>c. c = InfoHandover) tr = []"
    by blast
  define steady where "steady = snd (main_boot env args (initial_state fs0 t0))"
  have b: "main_boot env args (initial_state fs0 t0) = (None, steady)"
    unfolding steady_def boot by simp
  have al: "st_alive steady" and c0: "handover_count steady = 0"
    and th: "st_thread steady = (if 0 < arg_handover_after args then Sleeping else NoThread)"
    and ml: "st_mn_links steady = built_mn_links args"
    and cl: "st_cleaning steady = None"
    and pr: "length (st_procs steady) = 5"
    unfolding steady_def boot using nh
    by (simp_all add: handover_count_def initial_state_def node_names_def)
  have m: "main env args es (initial_state fs0 t0) = (None, run env args es steady)" for es
    by (simp add: main_def b)
  have fin: "snd (main env args (Exit # replicate 5 CleanupStep @ [CleanupStep]) (initial_state fs0 t0))
           = (snd (cleanup env steady))\<lparr>st_cleaning := Some [], st_alive := False\<rparr>"
    unfolding m using cleanup_steps[OF al cl, of env args] unfolding pr by simp
  show ?thesis
  proof (cases "0 < arg_handover_after args")
    case True
    with th have sl: "st_thread steady = Sleeping" by simp
    have lf: "None = map_option (\<lambda>items. Suc (length items)) (st_cleaning steady)"
      using cl by simp
    have nn: "st_cleaning steady = None \<longrightarrow> 5 = length (st_procs steady)" using pr by simp
    from run_sleeper[OF al sl lf nn, of env args es] c0 True fin show ?thesis
      unfolding m steady_def[symmetric] timer_fires_def by simp
  next
    case False
    with th have "st_thread steady = NoThread" by simp
    then have "st_thread steady \<noteq> Sleeping" by simp
    from run_no_sleeper[OF this, of env args es] c0 False th ml fin show ?thesis
      unfolding m steady_def[symmetric] by simp
  qed
qed

text \<open>
  Claim C9, amended. In a run that starts (root, \<open>ndnd\<close> found), whatever events follow,
  the handover runs at most once. With a positive delay it runs exactly once when the
  timer of the handover thread expires while the process is still running, be it before
  \<open>cleanup\<close> or while \<open>cleanup\<close> is under way, and not at all when the process has ended
  first. With a delay that is not positive it never runs, no thread exists, and the
  links inside Mininet stay as the initial configuration left them.
\<close>

theorem handover_at_most_once:
  assumes "geteuid env = 0"
    and "find_ndnd env (initial_state fs0 t0) (arg_ndnd args) (repo_root_of env) = Inr bin"
    and "final = snd (main env args es (initial_state fs0 t0))"
    and "steady = snd (main_boot env args (initial_state fs0 t0))"
  shows "handover_count final \<le> 1
       \<and> handover_count final = (if 0 < arg_handover_after args \<and> timer_fires es then 1 else 0)
       \<and> (\<not> 0 < arg_handover_after args \<longrightarrow>
            handover_count final = 0 \<and> st_thread final = NoThread
            \<and> st_mn_links final = st_mn_links steady
            \<and> st_mn_links final = built_mn_links args)"
proof -
  note h = main_run_count[OF assms(1,2), of es]
  have c: "handover_count final = (if 0 < arg_handover_after args \<and> timer_fires es then 1 else 0)"
    unfolding assms(3) by (rule h[THEN conjunct2, THEN conjunct1])
  have le: "handover_count final \<le> 1" unfolding c by simp
  have z: "handover_count final = 0 \<and> st_thread final = NoThread
            \<and> st_mn_links final = st_mn_links steady
            \<and> st_mn_links final = built_mn_links args"
    if n: "\<not> 0 < arg_handover_after args"
  proof -
    have "handover_count final = 0" unfolding c using n by simp
    with h[THEN conjunct2, THEN conjunct2, THEN conjunct1, THEN mp, OF n] show ?thesis
      unfolding assms(3,4) by blast
  qed
  from le c z show ?thesis by blast
qed

text \<open>
  Claim C9, as the specification states it, says that the handover runs exactly once
  whenever a positive delay is configured. A run with \<open>--handover-after 5\<close> that is
  interrupted, and whose \<open>cleanup\<close> is through before the timer expires, has ended
  without a handover.
\<close>

theorem handover_exactly_once_counterexample:
  "0 < arg_handover_after (default_args\<lparr>arg_handover_after := 5\<rparr>)
   \<and> fst (main example_env (default_args\<lparr>arg_handover_after := 5\<rparr>)
        [Exit, CleanupStep, CleanupStep, CleanupStep, CleanupStep, CleanupStep, CleanupStep]
        (initial_state Map.empty 0)) = None
   \<and> \<not> st_alive (snd (main example_env (default_args\<lparr>arg_handover_after := 5\<rparr>)
        [Exit, CleanupStep, CleanupStep, CleanupStep, CleanupStep, CleanupStep, CleanupStep]
        (initial_state Map.empty 0)))
   \<and> handover_count (snd (main example_env (default_args\<lparr>arg_handover_after := 5\<rparr>)
        [Exit, CleanupStep, CleanupStep, CleanupStep, CleanupStep, CleanupStep, CleanupStep]
        (initial_state Map.empty 0))) = 0"
proof -
  have r: "geteuid example_env = 0"
    and f: "find_ndnd example_env (initial_state Map.empty 0)
              (arg_ndnd (default_args\<lparr>arg_handover_after := 5\<rparr>)) (repo_root_of example_env)
            = Inr ''/usr/local/bin/ndnd''"
    by (simp_all add: example_env_def default_args_def find_ndnd_def)
  have es: "[Exit, CleanupStep, CleanupStep, CleanupStep, CleanupStep, CleanupStep, CleanupStep]
      = Exit # replicate 5 CleanupStep @ [CleanupStep]"
    by (simp add: numeral_eq_Suc)
  have nf: "\<not> timer_fires (Exit # replicate 5 CleanupStep @ [CleanupStep])"
    by (simp add: timer_fires_def numeral_eq_Suc)
  note h = main_run_count[OF r f, of "Exit # replicate 5 CleanupStep @ [CleanupStep]"]
  have dead: "\<not> st_alive (snd (main example_env (default_args\<lparr>arg_handover_after := 5\<rparr>)
        (Exit # replicate 5 CleanupStep @ [CleanupStep]) (initial_state Map.empty 0)))"
    unfolding h[THEN conjunct2, THEN conjunct2, THEN conjunct2] by simp
  have d5: "0 < arg_handover_after (default_args\<lparr>arg_handover_after := 5\<rparr>)" by simp
  have cnt: "handover_count (snd (main example_env (default_args\<lparr>arg_handover_after := 5\<rparr>)
        (Exit # replicate 5 CleanupStep @ [CleanupStep]) (initial_state Map.empty 0))) = 0"
    using h[THEN conjunct2, THEN conjunct1] nf by simp
  from d5 h[THEN conjunct1] dead cnt show ?thesis unfolding es by (intro conjI)
qed

theorem handover_at_most_once_witness:
  "geteuid example_env = 0
   \<and> find_ndnd example_env (initial_state Map.empty 0)
        (arg_ndnd (default_args\<lparr>arg_handover_after := 5\<rparr>)) (repo_root_of example_env)
       = Inr ''/usr/local/bin/ndnd''
   \<and> 0 < arg_handover_after (default_args\<lparr>arg_handover_after := 5\<rparr>)
   \<and> handover_count (snd (main example_env (default_args\<lparr>arg_handover_after := 5\<rparr>)
        [TimerExpired, TimerExpired, Exit, TimerExpired] (initial_state Map.empty 0))) = 1
   \<and> handover_count (snd (main example_env (default_args\<lparr>arg_handover_after := 5\<rparr>)
        [Exit, CleanupStep, CleanupStep, TimerExpired, CleanupStep, TimerExpired]
        (initial_state Map.empty 0))) = 1
   \<and> handover_count (snd (main example_env (default_args\<lparr>arg_handover_after := 5\<rparr>)
        [Exit, CleanupStep, CleanupStep, CleanupStep, CleanupStep, CleanupStep, CleanupStep,
         TimerExpired]
        (initial_state Map.empty 0))) = 0
   \<and> \<not> 0 < arg_handover_after default_args
   \<and> handover_count (snd (main example_env default_args [TimerExpired, Exit]
        (initial_state Map.empty 0))) = 0
   \<and> st_mn_links (snd (main example_env default_args [TimerExpired, Exit]
        (initial_state Map.empty 0))) = built_mn_links default_args"
proof -
  have r: "geteuid example_env = 0"
    and f5: "find_ndnd example_env (initial_state Map.empty 0)
              (arg_ndnd (default_args\<lparr>arg_handover_after := 5\<rparr>)) (repo_root_of example_env)
            = Inr ''/usr/local/bin/ndnd''"
    and f0: "find_ndnd example_env (initial_state Map.empty 0)
              (arg_ndnd default_args) (repo_root_of example_env)
            = Inr ''/usr/local/bin/ndnd''"
    by (simp_all add: example_env_def default_args_def find_ndnd_def)
  have d5: "0 < arg_handover_after (default_args\<lparr>arg_handover_after := 5\<rparr>)" by simp
  have d0: "\<not> 0 < arg_handover_after default_args" by (simp add: default_args_def)
  have t1: "timer_fires [TimerExpired, TimerExpired, Exit, TimerExpired]"
    and t2: "timer_fires [Exit, CleanupStep, CleanupStep, TimerExpired, CleanupStep, TimerExpired]"
    and t3: "\<not> timer_fires [Exit, CleanupStep, CleanupStep, CleanupStep, CleanupStep, CleanupStep,
         CleanupStep, TimerExpired]"
    by (simp_all add: timer_fires_def)
  note w1 = handover_at_most_once[OF r f5 refl refl,
      of "[TimerExpired, TimerExpired, Exit, TimerExpired]"]
  note w2 = handover_at_most_once[OF r f5 refl refl,
      of "[Exit, CleanupStep, CleanupStep, TimerExpired, CleanupStep, TimerExpired]"]
  note w3 = handover_at_most_once[OF r f5 refl refl,
      of "[Exit, CleanupStep, CleanupStep, CleanupStep, CleanupStep, CleanupStep, CleanupStep,
         TimerExpired]"]
  note w0 = handover_at_most_once[OF r f0 refl refl, of "[TimerExpired, Exit]"]
  have a1: "handover_count (snd (main example_env (default_args\<lparr>arg_handover_after := 5\<rparr>)
        [TimerExpired, TimerExpired, Exit, TimerExpired] (initial_state Map.empty 0))) = 1"
    using w1[THEN conjunct2, THEN conjunct1] d5 t1 by simp
  have a2: "handover_count (snd (main example_env (default_args\<lparr>arg_handover_after := 5\<rparr>)
        [Exit, CleanupStep, CleanupStep, TimerExpired, CleanupStep, TimerExpired]
        (initial_state Map.empty 0))) = 1"
    using w2[THEN conjunct2, THEN conjunct1] d5 t2 by simp
  have a3: "handover_count (snd (main example_env (default_args\<lparr>arg_handover_after := 5\<rparr>)
        [Exit, CleanupStep, CleanupStep, CleanupStep, CleanupStep, CleanupStep, CleanupStep,
         TimerExpired]
        (initial_state Map.empty 0))) = 0"
    using w3[THEN conjunct2, THEN conjunct1] d5 t3 by simp
  note n0 = w0[THEN conjunct2, THEN conjunct2, THEN mp, OF d0]
  from r f5 d5 a1 a2 a3 d0 n0 show ?thesis by blast
qed

end
